theory Spec2Isabelle
  imports Complex_Main "HOL-Library.AList"
begin

section \<open>Python values\<close>

text \<open>
  The configuration dictionaries, progress payloads and cached values of the service are
  untyped Python values (\<^verbatim>\<open>Dict[str, Any]\<close>). A Python \<^verbatim>\<open>str\<close> is a \<^typ>\<open>string\<close>
  (each character standing for one code point below 256), an \<^verbatim>\<open>int\<close> is an unbounded
  \<^typ>\<open>int\<close>, and a \<^verbatim>\<open>dict\<close> with string keys is an association list in insertion
  order. A \<^verbatim>\<open>float\<close> is one of the three non-finite values or a finite value,
  idealised as the \<^typ>\<open>real\<close> it denotes: rounding and overflow are not modelled.
\<close>

datatype pyfloat = Finite real | PosInf | NegInf | NaN

datatype pyval =
    PNone
  | PBool bool
  | PInt int
  | PFloat pyfloat
  | PStr string
  | PList "pyval list"
  | PDict "(string \<times> pyval) list"

text \<open>
  An exception is a value: \<open>ValueError msg\<close> is the one the tasks raise themselves,
  \<open>Raised cls msg\<close> stands for any other exception, of class \<open>cls\<close> and with
  \<^verbatim>\<open>str(e) = msg\<close>, raised by a statement of the interpreter or inside a collaborator
  (the numerical library, the file system, the task runner).
\<close>

datatype py_exception =
    ValueError string
  | Raised string string

fun str_of_exception :: "py_exception \<Rightarrow> string" where
  "str_of_exception (ValueError msg) = msg"
| "str_of_exception (Raised cls msg) = msg"

fun exception_class :: "py_exception \<Rightarrow> string" where
  "exception_class (ValueError msg) = ''ValueError''"
| "exception_class (Raised cls msg) = cls"


section \<open>Dataset preparation\<close>

text \<open>
  \<^verbatim>\<open>tasks/training_tasks.py\<close>, \<^verbatim>\<open>_prepare_dataset_config\<close>. The Dataset row: only the
  columns the training task reads. \<open>labels\<close> may be \<^verbatim>\<open>None\<close> in the row
  (\<^verbatim>\<open>dataset.labels or {}\<close>).
\<close>

record dataset =
  ds_name :: string
  ds_status :: string
  file_ids :: "string list"
  labels :: "(string \<rightharpoonup> int) option"

record dataset_config =
  train_files :: "string list"
  val_files :: "string list"
  train_labels :: "string \<rightharpoonup> int"
  val_labels :: "string \<rightharpoonup> int"
  augmentation :: "(string \<times> pyval) list"

text \<open>\<^verbatim>\<open>dataset.labels or {}\<close>\<close>

definition labels_or_empty :: "dataset \<Rightarrow> (string \<rightharpoonup> int)" where
  "labels_or_empty d = (case labels d of None \<Rightarrow> Map.empty | Some m \<Rightarrow> m)"

text \<open>
  \<^verbatim>\<open>split_index = int(len(file_ids) * 0.8)\<close>: the product is taken in the reals and
  truncated (the operands are non-negative, so truncation is the floor).
\<close>

definition split_index :: "nat \<Rightarrow> nat" where
  "split_index n = nat \<lfloor>real n * 0.8\<rfloor>"

text \<open>
  \<^verbatim>\<open>{fid: labels[fid] for fid in files if fid in labels}\<close>: the comprehension visits
  the files in order and stores the label of every file that has one.
\<close>

definition filter_labels :: "(string \<rightharpoonup> int) \<Rightarrow> string list \<Rightarrow> (string \<rightharpoonup> int)" where
  "filter_labels lbls files =
     fold (\<lambda>fid m. case lbls fid of None \<Rightarrow> m | Some l \<Rightarrow> m(fid \<mapsto> l)) files Map.empty"

definition default_augmentation :: "(string \<times> pyval) list" where
  "default_augmentation =
     [(''enable_rotation'', PBool True),
      (''enable_flip'', PBool True),
      (''enable_cad_augmentation'', PBool True),
      (''rotation_degrees'', PInt 15),
      (''flip_probability'', PFloat (Finite 0.5)),
      (''cad_augmentation_probability'', PFloat (Finite 0.3))]"

text \<open>
  The function has no \<^verbatim>\<open>raise\<close> and no check of its own; it is called inside the
  task's \<^verbatim>\<open>try\<close> block, so its result is given as a sum like every other step there.
\<close>

definition prepare_dataset_config :: "dataset \<Rightarrow> py_exception + dataset_config" where
  "prepare_dataset_config d =
     (let fids = file_ids d;
          lbls = labels_or_empty d;
          k = split_index (length fids);
          trn = take k fids;
          vl = drop k fids
      in Inr \<lparr> train_files = trn,
               val_files = vl,
               train_labels = filter_labels lbls trn,
               val_labels = filter_labels lbls vl,
               augmentation = default_augmentation \<rparr>)"



section \<open>The JSON text of a value\<close>

text \<open>
  \<^verbatim>\<open>core/redis_client.py\<close> stores \<^verbatim>\<open>json.dumps(value)\<close> and reads it back with
  \<^verbatim>\<open>json.loads\<close>. Both are modelled as the standard library runs them with its default
  options: \<^verbatim>\<open>dumps\<close> separates items with a comma and a space and keys from values with
  a colon and a space, and escapes every character outside the printable ASCII range;
  \<^verbatim>\<open>loads\<close> is the recursive-descent scanner with optional white space.

  The digits of a float (\<^verbatim>\<open>float.__repr__\<close>, the shortest text that reads back as the
  same double) are not defined on the reals that idealise floats here, so the printer
  takes them as the parameter \<open>frepr\<close>. The scanner reads a number with a fraction or an
  exponent as the exact decimal value. A \<^verbatim>\<open>\u\<close> escape above \<^verbatim>\<open>00ff\<close> denotes a
  character that \<^typ>\<open>string\<close> does not hold; the scanner gives \<open>None\<close> for it.
\<close>

definition digit_char :: "nat \<Rightarrow> char" where
  "digit_char d = char_of (48 + d)"

fun nat_digits :: "nat \<Rightarrow> string" where
  "nat_digits n = (if n < 10 then [digit_char n] else nat_digits (n div 10) @ [digit_char (n mod 10)])"

declare nat_digits.simps [simp del]

definition int_repr :: "int \<Rightarrow> string" where
  "int_repr i = (if i < 0 then CHR ''-'' # nat_digits (nat (- i)) else nat_digits (nat i))"

definition hex_char :: "nat \<Rightarrow> char" where
  "hex_char d = (if d < 10 then char_of (48 + d) else char_of (87 + d))"

definition quote :: char where
  "quote = CHR 0x22"

definition backslash :: char where
  "backslash = CHR 0x5C"

text \<open>\<^verbatim>\<open>json.encoder.py_encode_basestring_ascii\<close>, one character.\<close>

definition escape_char :: "char \<Rightarrow> string" where
  "escape_char c =
     (if c = quote then [backslash, quote]
      else if c = backslash then [backslash, backslash]
      else if c = CHR 0x0A then [backslash, CHR ''n'']
      else if c = CHR 0x0D then [backslash, CHR ''r'']
      else if c = CHR 0x09 then [backslash, CHR ''t'']
      else if c = CHR 0x08 then [backslash, CHR ''b'']
      else if c = CHR 0x0C then [backslash, CHR ''f'']
      else if (32::nat) \<le> of_char c \<and> of_char c \<le> (126::nat) then [c]
      else [backslash, CHR ''u'', CHR ''0'', CHR ''0'',
            hex_char (of_char c div 16), hex_char (of_char c mod 16)])"

definition json_string :: "string \<Rightarrow> string" where
  "json_string s = quote # concat (map escape_char s) @ [quote]"

fun join :: "string \<Rightarrow> string list \<Rightarrow> string" where
  "join sep [] = []"
| "join sep [x] = x"
| "join sep (x # y # ys) = x @ sep @ join sep (y # ys)"

fun json_dumps :: "(real \<Rightarrow> string) \<Rightarrow> pyval \<Rightarrow> string" where
  "json_dumps frepr PNone = ''null''"
| "json_dumps frepr (PBool b) = (if b then ''true'' else ''false'')"
| "json_dumps frepr (PInt i) = int_repr i"
| "json_dumps frepr (PFloat x) =
     (case x of Finite r \<Rightarrow> frepr r | PosInf \<Rightarrow> ''Infinity'' | NegInf \<Rightarrow> ''-Infinity'' | NaN \<Rightarrow> ''NaN'')"
| "json_dumps frepr (PStr s) = json_string s"
| "json_dumps frepr (PList vs) = ''['' @ join '', '' (map (json_dumps frepr) vs) @ '']''"
| "json_dumps frepr (PDict kvs) =
     ''{'' @ join '', '' (map (\<lambda>kv. json_string (fst kv) @ '': '' @ json_dumps frepr (snd kv)) kvs) @ ''}''"

text \<open>
  \<^verbatim>\<open>float.__repr__\<close> on a float whose value is an integer below \<open>10^16\<close> in magnitude:
  the integer's digits and \<^verbatim>\<open>.0\<close>. The examples name it where a rendering of floats
  has to be given.
\<close>

definition repr_integral :: "real \<Rightarrow> string" where
  "repr_integral r = int_repr \<lfloor>r\<rfloor> @ ''.0''"


section \<open>Reading JSON text\<close>

definition is_ws :: "char \<Rightarrow> bool" where
  "is_ws c = (c = CHR '' '' \<or> c = CHR 0x09 \<or> c = CHR 0x0A \<or> c = CHR 0x0D)"

definition skip_ws :: "string \<Rightarrow> string" where
  "skip_ws s = dropWhile is_ws s"

definition starts_with :: "string \<Rightarrow> string \<Rightarrow> bool" where
  "starts_with p s = (take (length p) s = p)"

definition is_digit :: "char \<Rightarrow> bool" where
  "is_digit c = ((48::nat) \<le> of_char c \<and> of_char c \<le> (57::nat))"

definition digit_val :: "char \<Rightarrow> nat" where
  "digit_val c = of_char c - 48"

definition digits_val :: "string \<Rightarrow> nat" where
  "digits_val ds = foldl (\<lambda>a c. 10 * a + digit_val c) 0 ds"

definition hex_val :: "char \<Rightarrow> nat option" where
  "hex_val c =
     (let n = (of_char c :: nat) in
      if 48 \<le> n \<and> n \<le> 57 then Some (n - 48)
      else if 97 \<le> n \<and> n \<le> 102 then Some (n - 87)
      else if 65 \<le> n \<and> n \<le> 70 then Some (n - 55)
      else None)"

text \<open>The one-character escapes of \<^verbatim>\<open>json.decoder.BACKSLASH\<close>.\<close>

definition unescape :: "char \<Rightarrow> char option" where
  "unescape e =
     (if e = quote then Some quote
      else if e = backslash then Some backslash
      else if e = CHR ''/'' then Some (CHR ''/'')
      else if e = CHR ''b'' then Some (CHR 0x08)
      else if e = CHR ''f'' then Some (CHR 0x0C)
      else if e = CHR ''n'' then Some (CHR 0x0A)
      else if e = CHR ''r'' then Some (CHR 0x0D)
      else if e = CHR ''t'' then Some (CHR 0x09)
      else None)"

definition hex4 :: "string \<Rightarrow> nat option" where
  "hex4 hs =
     (case map hex_val hs of
        [Some a, Some b, Some c, Some d] \<Rightarrow> Some (((a * 16 + b) * 16 + c) * 16 + d)
      | _ \<Rightarrow> None)"

text \<open>
  \<^verbatim>\<open>py_scanstring\<close> (strict), from the character after the opening quote: the string
  and the text after its closing quote.
\<close>

fun scan_string :: "string \<Rightarrow> (string \<times> string) option" where
  "scan_string [] = None"
| "scan_string (c # r) =
     (if c = quote then Some ([], r)
      else if c = backslash then
        (case r of
           [] \<Rightarrow> None
         | e # r' \<Rightarrow>
             if e = CHR ''u'' then
               (case hex4 (take 4 r') of
                  None \<Rightarrow> None
                | Some n \<Rightarrow>
                    if n < 256 then
                      (case scan_string (drop 4 r') of
                         None \<Rightarrow> None
                       | Some (t, r'') \<Rightarrow> Some (char_of n # t, r''))
                    else None)
             else
               (case unescape e of
                  None \<Rightarrow> None
                | Some ch \<Rightarrow>
                    (case scan_string r' of
                       None \<Rightarrow> None
                     | Some (t, r'') \<Rightarrow> Some (ch # t, r''))))
      else if of_char c < (32::nat) then None
      else
        (case scan_string r of
           None \<Rightarrow> None
         | Some (t, r') \<Rightarrow> Some (c # t, r')))"

text \<open>
  \<^verbatim>\<open>NUMBER_RE\<close>: an optional sign, \<^verbatim>\<open>0\<close> or a digit run without a leading zero, an
  optional fraction and an optional exponent.
\<close>

definition scan_int_part :: "string \<Rightarrow> (string \<times> string) option" where
  "scan_int_part s =
     (case s of
        [] \<Rightarrow> None
      | c # r \<Rightarrow>
          if c = CHR ''0'' then Some ([c], r)
          else if is_digit c then Some (c # takeWhile is_digit r, dropWhile is_digit r)
          else None)"

definition scan_frac :: "string \<Rightarrow> string \<times> string" where
  "scan_frac s =
     (if starts_with ''.'' s \<and> tl s \<noteq> [] \<and> is_digit (hd (tl s))
      then (takeWhile is_digit (tl s), dropWhile is_digit (tl s))
      else ([], s))"

definition scan_exp :: "string \<Rightarrow> (bool \<times> string) option \<times> string" where
  "scan_exp s =
     (if starts_with ''e'' s \<or> starts_with ''E'' s then
        (let r = tl s;
             neg = starts_with ''-'' r;
             r' = (if starts_with ''-'' r \<or> starts_with ''+'' r then tl r else r)
         in if r' \<noteq> [] \<and> is_digit (hd r')
            then (Some (neg, takeWhile is_digit r'), dropWhile is_digit r')
            else (None, s))
      else (None, s))"

definition decimal_value :: "string \<Rightarrow> string \<Rightarrow> (bool \<times> string) option \<Rightarrow> real" where
  "decimal_value ip fp ex =
     (real (digits_val ip) + real (digits_val fp) / 10 ^ length fp) *
     (case ex of
        None \<Rightarrow> 1
      | Some (neg, ds) \<Rightarrow> if neg then 1 / 10 ^ digits_val ds else 10 ^ digits_val ds)"

definition scan_number :: "string \<Rightarrow> (pyval \<times> string) option" where
  "scan_number s =
     (let neg = starts_with ''-'' s;
          s1 = (if neg then tl s else s)
      in case scan_int_part s1 of
           None \<Rightarrow> None
         | Some (ip, r1) \<Rightarrow>
             (let (fp, r2) = scan_frac r1;
                  (ex, r3) = scan_exp r2
              in if fp = [] \<and> ex = None
                 then Some (PInt (if neg then - int (digits_val ip) else int (digits_val ip)), r3)
                 else Some (PFloat (Finite (if neg then - decimal_value ip fp ex
                                            else decimal_value ip fp ex)), r3)))"

text \<open>\<^verbatim>\<open>dict(pairs)\<close>: a repeated key keeps its first position and takes the last value.\<close>

definition dict_of_pairs :: "(string \<times> pyval) list \<Rightarrow> (string \<times> pyval) list" where
  "dict_of_pairs kvs = foldl (\<lambda>d kv. AList.update (fst kv) (snd kv) d) [] kvs"

text \<open>
  \<^verbatim>\<open>scan_once\<close>, \<^verbatim>\<open>JSONArray\<close> and \<^verbatim>\<open>JSONObject\<close>. The first argument bounds the
  number of nested calls; \<open>json_loads\<close> starts with more than the length of the text, and
  every call but the first follows a character that was consumed.
\<close>

fun scan_once :: "nat \<Rightarrow> string \<Rightarrow> (pyval \<times> string) option"
  and scan_array :: "nat \<Rightarrow> pyval list \<Rightarrow> string \<Rightarrow> (pyval \<times> string) option"
  and scan_object :: "nat \<Rightarrow> (string \<times> pyval) list \<Rightarrow> string \<Rightarrow> (pyval \<times> string) option"
where
  "scan_once 0 s = None"
| "scan_once (Suc n) s =
     (if s = [] then None
      else if hd s = quote then
        (case scan_string (tl s) of
           None \<Rightarrow> None
         | Some (t, r) \<Rightarrow> Some (PStr t, r))
      else if hd s = CHR ''{'' then
        (let r = skip_ws (tl s) in
         if starts_with [quote] r then scan_object n [] r
         else if starts_with ''}'' r then Some (PDict [], tl r)
         else None)
      else if hd s = CHR ''['' then
        (let r = skip_ws (tl s) in
         if starts_with '']'' r then Some (PList [], tl r)
         else scan_array n [] r)
      else if starts_with ''null'' s then Some (PNone, drop 4 s)
      else if starts_with ''true'' s then Some (PBool True, drop 4 s)
      else if starts_with ''false'' s then Some (PBool False, drop 5 s)
      else
        (case scan_number s of
           Some x \<Rightarrow> Some x
         | None \<Rightarrow>
             if starts_with ''NaN'' s then Some (PFloat NaN, drop 3 s)
             else if starts_with ''Infinity'' s then Some (PFloat PosInf, drop 8 s)
             else if starts_with ''-Infinity'' s then Some (PFloat NegInf, drop 9 s)
             else None))"
| "scan_array 0 acc s = None"
| "scan_array (Suc n) acc s =
     (case scan_once n s of
        None \<Rightarrow> None
      | Some (v, r) \<Rightarrow>
          (let r' = skip_ws r in
           if starts_with '','' r' then scan_array n (acc @ [v]) (skip_ws (tl r'))
           else if starts_with '']'' r' then Some (PList (acc @ [v]), tl r')
           else None))"
| "scan_object 0 acc s = None"
| "scan_object (Suc n) acc s =
     (if \<not> starts_with [quote] s then None
      else
        (case scan_string (tl s) of
           None \<Rightarrow> None
         | Some (k, r) \<Rightarrow>
             (let r1 = skip_ws r in
              if \<not> starts_with '':'' r1 then None
              else
                (case scan_once n (skip_ws (tl r1)) of
                   None \<Rightarrow> None
                 | Some (v, r2) \<Rightarrow>
                     (let r3 = skip_ws r2 in
                      if starts_with ''}'' r3 then Some (PDict (dict_of_pairs (acc @ [(k, v)])), tl r3)
                      else if starts_with '','' r3 then scan_object n (acc @ [(k, v)]) (skip_ws (tl r3))
                      else None)))))"

text \<open>
  \<^verbatim>\<open>json.loads\<close>: white space, one value, white space, end of text; \<open>None\<close> stands
  for \<^verbatim>\<open>JSONDecodeError\<close>.
\<close>

definition json_loads :: "string \<Rightarrow> pyval option" where
  "json_loads s =
     (case scan_once (Suc (length s)) (skip_ws s) of
        None \<Rightarrow> None
      | Some (v, r) \<Rightarrow> if skip_ws r = [] then Some v else None)"


section \<open>Values that JSON text represents\<close>



text \<open>What follows a value inside the text of a list or a dictionary, or ends the text.\<close>

definition delimited :: "string \<Rightarrow> bool" where
  "delimited rest = (rest = [] \<or> hd rest = CHR '','' \<or> hd rest = CHR '']'' \<or> hd rest = CHR ''}'')"


section \<open>The progress cache\<close>

text \<open>
  \<^verbatim>\<open>core/redis_client.py\<close>. The Redis server is a map from keys to the stored text and
  the time to live it was stored with (\<^verbatim>\<open>setex\<close>); the client decodes responses, so a
  stored value is a \<^verbatim>\<open>str\<close>. No time passes in the model: a read sees every key that
  was set.
\<close>

type_synonym redis = "string \<rightharpoonup> string \<times> nat"

definition cache_set :: "(real \<Rightarrow> string) \<Rightarrow> string \<Rightarrow> pyval \<Rightarrow> nat \<Rightarrow> redis \<Rightarrow> redis" where
  "cache_set frepr key v expire r =
     (let serialized_value = (case v of PStr s \<Rightarrow> s | _ \<Rightarrow> json_dumps frepr v)
      in r(key \<mapsto> (serialized_value, expire)))"

definition cache_get :: "string \<Rightarrow> redis \<Rightarrow> pyval" where
  "cache_get key r =
     (case r key of
        None \<Rightarrow> PNone
      | Some (v, ttl) \<Rightarrow> (case json_loads v of Some x \<Rightarrow> x | None \<Rightarrow> PStr v))"


section \<open>Job records, model records and the stores\<close>

text \<open>
  The rows of the relational store, as the service reads and writes them. A column that
  receives a value straight from a progress payload or a configuration dictionary holds
  the Python value it was given. Times are seconds.
\<close>

record training_job =
  job_name :: string
  job_dataset_id :: string
  job_model_type :: string
  status :: string
  job_config :: "(string \<times> pyval) list"
  hyperparameters :: "(string \<times> pyval) list"
  current_epoch :: pyval
  total_epochs :: pyval
  progress_percentage :: pyval
  training_loss :: pyval
  validation_loss :: pyval
  accuracy :: pyval
  precision :: pyval
  recall :: pyval
  f1_score :: pyval
  started_at :: "nat option"
  completed_at :: "nat option"
  estimated_completion :: "nat option"
  model_path :: "string option"
  error_message :: "string option"
  celery_task_id :: "string option"
  created_by :: string
  updated_at :: nat

record ai_model =
  model_id :: string
  model_name :: string
  model_description :: string
  model_version :: string
  model_type :: pyval
  training_job_id :: string
  training_dataset_id :: string
  model_file :: string
  model_config :: "(string \<times> pyval) list"
  model_accuracy :: pyval
  model_precision :: pyval
  model_recall :: pyval
  model_f1_score :: pyval
  model_created_by :: string

text \<open>
  The state the tasks and routes act on: the job, dataset and model tables, the Redis
  cache, and the task ids the route asked the task runner to revoke.
\<close>

record sys =
  jobs :: "string \<rightharpoonup> training_job"
  datasets :: "string \<rightharpoonup> dataset"
  models :: "ai_model list"
  redis :: redis
  revoked :: "string list"

text \<open>
  What the process reads from outside: the rendering of floats, the clock
  (\<^verbatim>\<open>datetime.utcnow()\<close>, which reads the same at every call of one run), the
  formatting of a time, the fresh identifier (\<^verbatim>\<open>uuid4()\<close>) and the setting
  \<^verbatim>\<open>model_storage_path\<close>.
\<close>

record env =
  float_repr :: "real \<Rightarrow> string"
  utcnow :: nat
  strftime :: "nat \<Rightarrow> string"
  uuid4 :: string
  model_storage_path :: string

text \<open>\<^verbatim>\<open>d.get(key, default)\<close> and \<^verbatim>\<open>d.get(key)\<close>.\<close>

definition dict_get :: "(string \<times> pyval) list \<Rightarrow> string \<Rightarrow> pyval \<Rightarrow> pyval" where
  "dict_get d key dflt = (case map_of d key of None \<Rightarrow> dflt | Some v \<Rightarrow> v)"

text \<open>The truth value of an \<^verbatim>\<open>Optional[str]\<close>: \<^verbatim>\<open>None\<close> and the empty string are false.\<close>

definition truthy :: "string option \<Rightarrow> bool" where
  "truthy x = (case x of None \<Rightarrow> False | Some s \<Rightarrow> s \<noteq> [])"


section \<open>The training tasks\<close>

text \<open>
  \<^verbatim>\<open>tasks/training_tasks.py\<close>, \<^verbatim>\<open>_update_training_job_status\<close>: the values of the
  \<^verbatim>\<open>UPDATE\<close>, then the statement on the row with that id (no row, no change).
\<close>

definition status_update_data ::
  "nat \<Rightarrow> string \<Rightarrow> string option \<Rightarrow> string option \<Rightarrow> training_job \<Rightarrow> training_job" where
  "status_update_data now st task_id err j =
     (let j1 = j\<lparr>status := st, updated_at := now\<rparr>;
          j2 = (if truthy task_id then j1\<lparr>celery_task_id := task_id\<rparr> else j1);
          j3 = (if st = ''running''
                then j2\<lparr>started_at := Some now, estimated_completion := Some (now + 3600)\<rparr>
                else if st \<in> set [''completed'', ''failed'', ''cancelled'']
                then j2\<lparr>completed_at := Some now\<rparr>
                else j2)
      in if truthy err then j3\<lparr>error_message := err\<rparr> else j3)"

definition update_row :: "string \<Rightarrow> (training_job \<Rightarrow> training_job) \<Rightarrow> sys \<Rightarrow> sys" where
  "update_row job_id f s =
     (case jobs s job_id of
        None \<Rightarrow> s
      | Some j \<Rightarrow> s\<lparr>jobs := (jobs s)(job_id \<mapsto> f j)\<rparr>)"

definition update_training_job_status ::
  "env \<Rightarrow> string \<Rightarrow> string \<Rightarrow> string option \<Rightarrow> string option \<Rightarrow> sys \<Rightarrow> sys" where
  "update_training_job_status e job_id st task_id err s =
     update_row job_id (status_update_data (utcnow e) st task_id err) s"

text \<open>
  \<^verbatim>\<open>_update_training_progress\<close>: the row first, then the cache entry with a time to
  live of 300 seconds. \<^verbatim>\<open>metrics.get\<close> needs \<^verbatim>\<open>detailed_metrics\<close> to be a dictionary;
  with anything else the coroutine raises before either write and, being a detached
  task, changes nothing.
\<close>

definition progress_update_data :: "nat \<Rightarrow> (string \<times> pyval) list \<Rightarrow> training_job \<Rightarrow> training_job" where
  "progress_update_data now progress_data j =
     (let j1 = j\<lparr>current_epoch := dict_get progress_data ''epoch'' (PInt 0),
                 progress_percentage := dict_get progress_data ''progress'' (PInt 0),
                 training_loss := dict_get progress_data ''train_loss'' PNone,
                 validation_loss := dict_get progress_data ''val_loss'' PNone,
                 accuracy := dict_get progress_data ''val_acc'' PNone,
                 updated_at := now\<rparr>
      in case map_of progress_data ''detailed_metrics'' of
           Some (PDict metrics) \<Rightarrow>
             j1\<lparr>precision := dict_get metrics ''precision'' PNone,
                recall := dict_get metrics ''recall'' PNone,
                f1_score := dict_get metrics ''f1_score'' PNone\<rparr>
         | _ \<Rightarrow> j1)"

definition metrics_ok :: "(string \<times> pyval) list \<Rightarrow> bool" where
  "metrics_ok progress_data =
     (case map_of progress_data ''detailed_metrics'' of
        None \<Rightarrow> True
      | Some (PDict metrics) \<Rightarrow> True
      | Some other \<Rightarrow> False)"

definition progress_key :: "string \<Rightarrow> string" where
  "progress_key job_id = ''training_progress:'' @ job_id"

definition update_training_progress :: "env \<Rightarrow> string \<Rightarrow> (string \<times> pyval) list \<Rightarrow> sys \<Rightarrow> sys" where
  "update_training_progress e job_id progress_data s =
     (if \<not> metrics_ok progress_data then s
      else
        (let s1 = update_row job_id (progress_update_data (utcnow e) progress_data) s
         in s1\<lparr>redis := cache_set (float_repr e) (progress_key job_id) (PDict progress_data) 300 (redis s1)\<rparr>))"

text \<open>The dictionary \<^verbatim>\<open>CADModelTrainer.train\<close> returns, with the keys the task reads.\<close>

record training_results =
  final_train_loss :: pyval
  final_val_loss :: pyval
  final_train_acc :: pyval
  final_val_acc :: pyval
  res_best_val_loss :: pyval
  epochs_trained :: nat
  res_model_path :: string
  detailed_metrics :: "(string \<times> pyval) list"

definition update_training_job_completion ::
  "env \<Rightarrow> string \<Rightarrow> training_results \<Rightarrow> sys \<Rightarrow> sys" where
  "update_training_job_completion e job_id res s =
     update_row job_id
       (\<lambda>j. j\<lparr>status := ''completed'',
              completed_at := Some (utcnow e),
              model_path := Some (res_model_path res),
              training_loss := final_train_loss res,
              validation_loss := final_val_loss res,
              accuracy := final_val_acc res,
              precision := dict_get (detailed_metrics res) ''precision'' PNone,
              recall := dict_get (detailed_metrics res) ''recall'' PNone,
              f1_score := dict_get (detailed_metrics res) ''f1_score'' PNone,
              progress_percentage := PFloat (Finite 100),
              updated_at := utcnow e\<rparr>) s"

text \<open>\<^verbatim>\<open>services/model_service.py\<close>, \<^verbatim>\<open>ModelService.create_model\<close>, as the task calls it.\<close>

definition create_model ::
  "env \<Rightarrow> string \<Rightarrow> string \<Rightarrow> dataset \<Rightarrow> (string \<times> pyval) list \<Rightarrow> training_results \<Rightarrow> string \<Rightarrow> sys \<Rightarrow> sys" where
  "create_model e job_id dataset_id d mconfig res user_id s =
     s\<lparr>models := models s @
        [\<lparr>model_id = uuid4 e,
          model_name = ''CAD Model - '' @ strftime e (utcnow e),
          model_description = ''Trained on dataset '' @ ds_name d,
          model_version = ''1.0.0'',
          model_type = dict_get mconfig ''model_type'' (PStr ''cnn''),
          training_job_id = job_id,
          training_dataset_id = dataset_id,
          model_file = res_model_path res,
          model_config = mconfig,
          model_accuracy = dict_get (detailed_metrics res) ''accuracy'' PNone,
          model_precision = dict_get (detailed_metrics res) ''precision'' PNone,
          model_recall = dict_get (detailed_metrics res) ''recall'' PNone,
          model_f1_score = dict_get (detailed_metrics res) ''f1_score'' PNone,
          model_created_by = user_id\<rparr>]\<rparr>"

text \<open>
  The trainer as the task sees it: given the two configurations, the prepared dataset
  and the save directory (\<^verbatim>\<open>os.path.join(settings.model_storage_path, training_job_id)\<close>)
  it emits progress payloads through the callback and either returns its results or
  raises. Creating the trainer and the directory are part of it.
\<close>

type_synonym trainer_run =
  "(string \<times> pyval) list \<Rightarrow> (string \<times> pyval) list \<Rightarrow> dataset_config \<Rightarrow> string \<Rightarrow>
     (string \<times> pyval) list list \<times> (py_exception + training_results)"

datatype train_result =
    TrainSucceeded string training_results
  | TrainFailed string

text \<open>The states after each write of a list of progress payloads, in the order given.\<close>

fun progress_writes :: "env \<Rightarrow> string \<Rightarrow> (string \<times> pyval) list list \<Rightarrow> sys \<Rightarrow> sys list" where
  "progress_writes e job_id [] s = []"
| "progress_writes e job_id (p # ps) s =
     (let s' = update_training_progress e job_id p s in s' # progress_writes e job_id ps s')"

text \<open>
  \<^verbatim>\<open>train_cad_model_task\<close>: the result and the state after every write, in order.
  \<open>task_id\<close> is \<^verbatim>\<open>self.request.id\<close>, which is \<^verbatim>\<open>None\<close> when the task is called
  directly. The first state is the one the first statement of the \<^verbatim>\<open>try\<close> block leaves. The progress
  payloads are written in the order the trainer emitted them, before the task's own
  next write. The \<^verbatim>\<open>except\<close> branch appends the state with the failure recorded.
\<close>

definition task_failed ::
  "env \<Rightarrow> string option \<Rightarrow> string \<Rightarrow> py_exception \<Rightarrow> sys list \<Rightarrow> train_result \<times> sys list" where
  "task_failed e task_id job_id ex sts =
     (TrainFailed (str_of_exception ex),
      sts @ [update_training_job_status e job_id ''failed'' task_id
               (Some (str_of_exception ex)) (last sts)])"

definition train_cad_model_task ::
  "env \<Rightarrow> trainer_run \<Rightarrow> string option \<Rightarrow> string \<Rightarrow> string \<Rightarrow> (string \<times> pyval) list \<Rightarrow>
     (string \<times> pyval) list \<Rightarrow> string \<Rightarrow> sys \<Rightarrow> train_result \<times> sys list" where
  "train_cad_model_task e trainer task_id job_id dataset_id mconfig tconfig user_id s =
     (let s1 = update_training_job_status e job_id ''running'' task_id None s in
      case datasets s1 dataset_id of
        None \<Rightarrow> task_failed e task_id job_id (ValueError (''Dataset '' @ dataset_id @ '' not found'')) [s1]
      | Some d \<Rightarrow>
          if ds_status d \<noteq> ''ready''
          then task_failed e task_id job_id
                 (ValueError (''Dataset '' @ dataset_id @ '' is not ready for training'')) [s1]
          else
            (case prepare_dataset_config d of
               Inl ex \<Rightarrow> task_failed e task_id job_id ex [s1]
             | Inr dataset_cfg \<Rightarrow>
                 (let (payloads, outcome) =
                        trainer mconfig tconfig dataset_cfg (model_storage_path e @ ''/'' @ job_id);
                      sts = s1 # progress_writes e job_id payloads s1
                  in case outcome of
                       Inl ex \<Rightarrow> task_failed e task_id job_id ex sts
                     | Inr res \<Rightarrow>
                         (let s2 = create_model e job_id dataset_id d mconfig res user_id (last sts);
                              s3 = update_training_job_completion e job_id res s2
                          in (TrainSucceeded (uuid4 e) res, sts @ [s2, s3])))))"

text \<open>\<^verbatim>\<open>cancel_training_job_task\<close>: the status, then the cache entry (60 seconds).\<close>

definition cancel_training_job_task :: "env \<Rightarrow> string \<Rightarrow> sys \<Rightarrow> bool \<times> sys" where
  "cancel_training_job_task e job_id s =
     (let s1 = update_training_job_status e job_id ''cancelled'' None None s
      in (True,
          s1\<lparr>redis := cache_set (float_repr e) (progress_key job_id)
                        (PDict [(''status'', PStr ''cancelled'')]) 60 (redis s1)\<rparr>))"


section \<open>The cancel route\<close>

text \<open>
  \<^verbatim>\<open>api/routes/training.py\<close>, \<^verbatim>\<open>cancel_training_job\<close>: the checks, the revocation of the
  running task and the cancellation task, which runs once the response is sent. The
  result is the response (an HTTP error or success) and the state the request leaves.
\<close>

datatype http_error = HTTPException nat string

definition cancel_training_job ::
  "env \<Rightarrow> string \<Rightarrow> string \<Rightarrow> sys \<Rightarrow> (http_error + bool) \<times> sys" where
  "cancel_training_job e job_id current_user_id s =
     (case jobs s job_id of
        None \<Rightarrow> (Inl (HTTPException 404 ''Training job not found''), s)
      | Some job \<Rightarrow>
          if created_by job \<noteq> current_user_id then (Inl (HTTPException 403 ''Access denied''), s)
          else if status job \<notin> set [''queued'', ''running'']
          then (Inl (HTTPException 400 (''Cannot cancel job with status: '' @ status job)), s)
          else
            (let s1 = (if truthy (celery_task_id job)
                       then s\<lparr>revoked := revoked s @ [the (celery_task_id job)]\<rparr> else s)
             in (Inr True, snd (cancel_training_job_task e job_id s1))))"


section \<open>Training configuration defaults\<close>

text \<open>
  \<^verbatim>\<open>api/routes/training.py\<close>, \<^verbatim>\<open>create_training_job\<close>: the defaults with the request's
  own entries over them (\<^verbatim>\<open>{**defaults, **request}\<close>).
\<close>

definition dict_merge :: "(string \<times> pyval) list \<Rightarrow> (string \<times> pyval) list \<Rightarrow> (string \<times> pyval) list" where
  "dict_merge a b = foldl (\<lambda>d kv. AList.update (fst kv) (snd kv) d) a b"

definition route_training_config :: "(string \<times> pyval) list \<Rightarrow> (string \<times> pyval) list" where
  "route_training_config request_config =
     dict_merge
       [(''epochs'', PInt 50),
        (''batch_size'', PInt 32),
        (''learning_rate'', PFloat (Finite 0.001)),
        (''weight_decay'', PFloat (Finite 0.0001)),
        (''patience'', PInt 10)]
       request_config"

text \<open>\<^verbatim>\<open>services/training_service.py\<close>: the job row's \<^verbatim>\<open>total_epochs\<close>.\<close>

definition job_total_epochs :: "(string \<times> pyval) list \<Rightarrow> pyval" where
  "job_total_epochs training_config = dict_get training_config ''epochs'' (PInt 50)"

text \<open>\<^verbatim>\<open>ml/training/trainer.py\<close>, \<^verbatim>\<open>CADModelTrainer.__init__\<close>: the training parameters.\<close>

record trainer_params =
  epochs :: pyval
  batch_size :: pyval
  learning_rate :: pyval
  weight_decay :: pyval
  patience :: pyval

definition trainer_init :: "(string \<times> pyval) list \<Rightarrow> trainer_params" where
  "trainer_init training_config =
     \<lparr>epochs = dict_get training_config ''epochs'' (PInt 100),
      batch_size = dict_get training_config ''batch_size'' (PInt 32),
      learning_rate = dict_get training_config ''learning_rate'' (PFloat (Finite 0.001)),
      weight_decay = dict_get training_config ''weight_decay'' (PFloat (Finite 0.0001)),
      patience = dict_get training_config ''patience'' (PInt 10)\<rparr>"


section \<open>The trainer\<close>

text \<open>Comparison, addition and division of floats, with the non-finite values.\<close>

fun float_less :: "pyfloat \<Rightarrow> pyfloat \<Rightarrow> bool" where
  "float_less (Finite a) (Finite b) = (a < b)"
| "float_less (Finite a) PosInf = True"
| "float_less NegInf (Finite b) = True"
| "float_less NegInf PosInf = True"
| "float_less x y = False"

definition float_le :: "pyfloat \<Rightarrow> pyfloat \<Rightarrow> bool" where
  "float_le x y = (float_less x y \<or> (x = y \<and> x \<noteq> NaN))"

fun float_add :: "pyfloat \<Rightarrow> pyfloat \<Rightarrow> pyfloat" where
  "float_add (Finite a) (Finite b) = Finite (a + b)"
| "float_add NaN y = NaN"
| "float_add x NaN = NaN"
| "float_add PosInf NegInf = NaN"
| "float_add NegInf PosInf = NaN"
| "float_add PosInf y = PosInf"
| "float_add NegInf y = NegInf"
| "float_add x PosInf = PosInf"
| "float_add x NegInf = NegInf"

text \<open>Division of a float by a positive count.\<close>

fun float_div :: "pyfloat \<Rightarrow> nat \<Rightarrow> pyfloat" where
  "float_div (Finite a) n = Finite (a / real n)"
| "float_div x n = x"

text \<open>
  \<^verbatim>\<open>operator.index\<close>, as \<^verbatim>\<open>range\<close> applies it (a \<^verbatim>\<open>bool\<close> is an \<^verbatim>\<open>int\<close>), and the
  name of a value's type as error messages print it.
\<close>

definition py_index :: "pyval \<Rightarrow> int option" where
  "py_index v = (case v of PInt n \<Rightarrow> Some n | PBool b \<Rightarrow> Some (if b then 1 else 0) | _ \<Rightarrow> None)"

definition py_type_name :: "pyval \<Rightarrow> string" where
  "py_type_name v =
     (case v of PNone \<Rightarrow> ''NoneType'' | PBool b \<Rightarrow> ''bool'' | PInt n \<Rightarrow> ''int''
      | PFloat x \<Rightarrow> ''float'' | PStr s \<Rightarrow> ''str'' | PList vs \<Rightarrow> ''list'' | PDict kvs \<Rightarrow> ''dict'')"

text \<open>\<^verbatim>\<open>self.early_stopping_counter >= self.patience\<close>; \<open>None\<close> when the comparison raises.\<close>

definition counter_reached :: "nat \<Rightarrow> pyval \<Rightarrow> bool option" where
  "counter_reached c p =
     (case p of
        PInt n \<Rightarrow> Some (n \<le> int c)
      | PBool b \<Rightarrow> Some ((if b then 1 else 0) \<le> c)
      | PFloat x \<Rightarrow> Some (float_le x (Finite (real c)))
      | _ \<Rightarrow> None)"

text \<open>
  The numerical library is a black box. What it computes is given by a record: the
  lengths of the two data loaders, the effect of one optimisation step on the tensor
  storage with the loss of the batch, the training accuracy of an epoch, the validation
  pass (loss, accuracy, precision, recall and F1 as a function of the model's parameter
  values) and the learning rate after the scheduler's step. Its own failures are not
  modelled; the exceptions of the trainer's own statements are.
\<close>

record 'w numerics =
  n_batches :: nat
  n_val_batches :: nat
  train_batch :: "nat \<Rightarrow> nat \<Rightarrow> (nat \<Rightarrow> 'w) \<Rightarrow> (nat \<Rightarrow> 'w) \<times> pyfloat"
  train_accuracy :: "nat \<Rightarrow> pyfloat"
  validate :: "(string \<times> 'w) list \<Rightarrow> pyfloat \<times> pyfloat \<times> pyfloat \<times> pyfloat \<times> pyfloat"
  learning_rate_at :: "nat \<Rightarrow> pyfloat"

text \<open>
  The trainer object. A tensor is a reference into \<open>storage\<close>; the module's parameters
  are named references, and an optimisation step writes the storage in place. A state
  dictionary (\<^verbatim>\<open>model.state_dict()\<close>) holds references to the parameters, as the
  library documents, and so does its \<^verbatim>\<open>.copy()\<close>, which copies the dictionary and
  not the tensors. \<open>saved\<close> is the
  save directory: \<^verbatim>\<open>torch.save\<close> writes the values the tensors hold at that moment.
  \<open>emitted\<close> lists the payloads given to the progress callback, which the task always
  provides.
\<close>

record 'w trainer =
  params :: trainer_params
  storage :: "nat \<Rightarrow> 'w"
  module_params :: "(string \<times> nat) list"
  trainer_epoch :: nat
  best_val_loss :: pyfloat
  best_model_state :: "(string \<times> nat) list option"
  early_stopping_counter :: nat
  history_train_loss :: "pyfloat list"
  history_val_loss :: "pyfloat list"
  history_train_acc :: "pyfloat list"
  history_val_acc :: "pyfloat list"
  history_lr :: "pyfloat list"
  emitted :: "(string \<times> pyval) list list"
  saved :: "(string \<times> (string \<times> 'w) list) list"

text \<open>\<^verbatim>\<open>CADModelTrainer.__init__\<close>, with the model the factory built.\<close>

definition new_trainer :: "(string \<times> pyval) list \<Rightarrow> (nat \<Rightarrow> 'w) \<Rightarrow> (string \<times> nat) list \<Rightarrow> 'w trainer" where
  "new_trainer training_config st mp =
     \<lparr>params = trainer_init training_config,
      storage = st,
      module_params = mp,
      trainer_epoch = 0,
      best_val_loss = PosInf,
      best_model_state = None,
      early_stopping_counter = 0,
      history_train_loss = [],
      history_val_loss = [],
      history_train_acc = [],
      history_val_acc = [],
      history_lr = [],
      emitted = [],
      saved = []\<rparr>"

definition state_dict :: "'w trainer \<Rightarrow> (string \<times> nat) list" where
  "state_dict t = module_params t"

text \<open>The values the model's parameters hold.\<close>

definition parameter_values :: "'w trainer \<Rightarrow> (string \<times> 'w) list" where
  "parameter_values t = map (\<lambda>na. (fst na, storage t (snd na))) (module_params t)"

text \<open>
  \<^verbatim>\<open>model.load_state_dict(sd)\<close>: each parameter copies, in place, the value of the tensor
  the dictionary holds under its name.
\<close>

definition load_state_dict :: "(string \<times> nat) list \<Rightarrow> 'w trainer \<Rightarrow> 'w trainer" where
  "load_state_dict sd t =
     t\<lparr>storage :=
         fold (\<lambda>na st. case map_of sd (fst na) of None \<Rightarrow> st | Some b \<Rightarrow> st(snd na := st b))
           (module_params t) (storage t)\<rparr>"

text \<open>\<^verbatim>\<open>train_epoch\<close>: one batch, then the loop and the average.\<close>

definition batch_step :: "'w numerics \<Rightarrow> nat \<Rightarrow> 'w trainer \<times> pyfloat \<Rightarrow> 'w trainer \<times> pyfloat" where
  "batch_step num batch_idx acc =
     (let t = fst acc;
          (st, loss) = train_batch num (trainer_epoch t) batch_idx (storage t);
          t1 = t\<lparr>storage := st\<rparr>;
          t2 = (if batch_idx mod 10 = 0
                then t1\<lparr>emitted := emitted t1 @
                       [[(''epoch'', PInt (int (trainer_epoch t1))),
                         (''batch'', PInt (int batch_idx)),
                         (''batch_progress'',
                            PFloat (Finite (real batch_idx / real (n_batches num) * 100))),
                         (''loss'', PFloat loss)]]\<rparr>
                else t1)
      in (t2, float_add (snd acc) loss))"

definition train_epoch ::
  "'w numerics \<Rightarrow> 'w trainer \<Rightarrow> (py_exception \<times> 'w trainer) + ('w trainer \<times> pyfloat \<times> pyfloat)" where
  "train_epoch num t =
     (let (t1, total_loss) = fold (batch_step num) [0..<n_batches num] (t, Finite 0)
      in if n_batches num = 0
         then Inl (Raised ''ZeroDivisionError'' ''float division by zero'', t1)
         else Inr (t1, float_div total_loss (n_batches num), train_accuracy num (trainer_epoch t)))"

definition validate_epoch ::
  "'w numerics \<Rightarrow> 'w trainer \<Rightarrow> py_exception + pyfloat \<times> pyfloat \<times> pyfloat \<times> pyfloat \<times> pyfloat" where
  "validate_epoch num t =
     (if n_val_batches num = 0
      then Inl (Raised ''ZeroDivisionError'' ''float division by zero'')
      else Inr (validate num (parameter_values t)))"

text \<open>\<^verbatim>\<open>save_checkpoint\<close>: the file, and its copy tagged best.\<close>

definition save_checkpoint :: "string \<Rightarrow> string \<Rightarrow> bool \<Rightarrow> 'w trainer \<Rightarrow> 'w trainer" where
  "save_checkpoint stem ext is_best t =
     (let fs = AList.update (stem @ ext) (parameter_values t) (saved t)
      in t\<lparr>saved := (if is_best then AList.update (stem @ ''_best'' @ ext) (parameter_values t) fs
                      else fs)\<rparr>)"

definition metrics_dict :: "pyfloat \<Rightarrow> pyfloat \<Rightarrow> pyfloat \<Rightarrow> (string \<times> pyval) list" where
  "metrics_dict p r f = [(''precision'', PFloat p), (''recall'', PFloat r), (''f1_score'', PFloat f)]"

text \<open>
  One pass of the epoch loop of \<^verbatim>\<open>train\<close>, up to the early-stopping test. \<open>n\<close> is
  \<^verbatim>\<open>self.epochs\<close> as an integer.
\<close>

definition run_epoch ::
  "'w numerics \<Rightarrow> int \<Rightarrow> string \<Rightarrow> nat \<Rightarrow> 'w trainer \<Rightarrow> (py_exception \<times> 'w trainer) + 'w trainer" where
  "run_epoch num n save_dir epoch t =
     (case train_epoch num (t\<lparr>trainer_epoch := epoch\<rparr>) of
        Inl x \<Rightarrow> Inl x
      | Inr (t1, train_loss, train_acc) \<Rightarrow>
          (case validate_epoch num t1 of
             Inl ex \<Rightarrow> Inl (ex, t1)
           | Inr (val_loss, val_acc, prec, rec, f1) \<Rightarrow>
               (let current_lr = learning_rate_at num epoch;
                    t2 = t1\<lparr>history_train_loss := history_train_loss t1 @ [train_loss],
                            history_val_loss := history_val_loss t1 @ [val_loss],
                            history_train_acc := history_train_acc t1 @ [train_acc],
                            history_val_acc := history_val_acc t1 @ [val_acc],
                            history_lr := history_lr t1 @ [current_lr]\<rparr>;
                    is_best = float_less val_loss (best_val_loss t2);
                    t3 = (if is_best
                          then t2\<lparr>best_val_loss := val_loss,
                                  best_model_state := Some (state_dict t2),
                                  early_stopping_counter := 0\<rparr>
                          else t2\<lparr>early_stopping_counter := early_stopping_counter t2 + 1\<rparr>);
                    t4 = save_checkpoint (save_dir @ ''/checkpoint_epoch_'' @ nat_digits epoch) ''.pth''
                           is_best t3
                in Inr (t4\<lparr>emitted := emitted t4 @
                         [[(''epoch'', PInt (int epoch)),
                           (''total_epochs'', epochs (params t4)),
                           (''progress'', PFloat (Finite (real (epoch + 1) / real_of_int n * 100))),
                           (''train_loss'', PFloat train_loss),
                           (''val_loss'', PFloat val_loss),
                           (''train_acc'', PFloat train_acc),
                           (''val_acc'', PFloat val_acc),
                           (''learning_rate'', PFloat current_lr),
                           (''detailed_metrics'', PDict (metrics_dict prec rec f1))]]\<rparr>))))"

text \<open>
  \<^verbatim>\<open>for epoch in range(self.epochs)\<close> with its \<^verbatim>\<open>break\<close>: the loop over the epoch
  numbers still to run.
\<close>

fun epoch_loop ::
  "'w numerics \<Rightarrow> int \<Rightarrow> string \<Rightarrow> nat list \<Rightarrow> 'w trainer \<Rightarrow> (py_exception \<times> 'w trainer) + 'w trainer" where
  "epoch_loop num n save_dir [] t = Inr t"
| "epoch_loop num n save_dir (epoch # rest) t =
     (case run_epoch num n save_dir epoch t of
        Inl x \<Rightarrow> Inl x
      | Inr t' \<Rightarrow>
          (case counter_reached (early_stopping_counter t') (patience (params t')) of
             None \<Rightarrow>
               Inl (Raised ''TypeError''
                      ([CHR 0x27] @ ''>='' @ [CHR 0x27] @ '' not supported between instances of '' @
                       [CHR 0x27] @ ''int'' @ [CHR 0x27] @ '' and '' @
                       [CHR 0x27] @ py_type_name (patience (params t')) @ [CHR 0x27]), t')
           | Some True \<Rightarrow> Inr t'
           | Some False \<Rightarrow> epoch_loop num n save_dir rest t'))"

text \<open>
  \<^verbatim>\<open>CADModelTrainer.train\<close>: the loop, the restoring of the best state, the final file,
  the final validation and the results; the trainer as it ends, with the exception or
  the results.
\<close>

definition train ::
  "'w numerics \<Rightarrow> string \<Rightarrow> 'w trainer \<Rightarrow> (py_exception \<times> 'w trainer) + ('w trainer \<times> training_results)" where
  "train num save_dir t =
     (case py_index (epochs (params t)) of
        None \<Rightarrow>
          Inl (Raised ''TypeError''
                 ([CHR 0x27] @ py_type_name (epochs (params t)) @ [CHR 0x27] @
                  '' object cannot be interpreted as an integer''), t)
      | Some n \<Rightarrow>
          (case epoch_loop num n save_dir [0..<nat n] t of
             Inl x \<Rightarrow> Inl x
           | Inr t1 \<Rightarrow>
               (let t2 = (case best_model_state t1 of
                            None \<Rightarrow> t1
                          | Some sd \<Rightarrow> load_state_dict sd t1);
                    t3 = t2\<lparr>saved := AList.update (save_dir @ ''/final_model.pth'')
                                        (parameter_values t2) (saved t2)\<rparr>
                in case validate_epoch num t3 of
                     Inl ex \<Rightarrow> Inl (ex, t3)
                   | Inr (final_loss, final_acc, prec, rec, f1) \<Rightarrow>
                       if history_train_loss t3 = []
                       then Inl (Raised ''IndexError'' ''list index out of range'', t3)
                       else Inr (t3,
                         \<lparr>final_train_loss = PFloat (last (history_train_loss t3)),
                          final_val_loss = PFloat final_loss,
                          final_train_acc = PFloat (last (history_train_acc t3)),
                          final_val_acc = PFloat final_acc,
                          res_best_val_loss = PFloat (best_val_loss t3),
                          epochs_trained = trainer_epoch t3 + 1,
                          res_model_path = save_dir @ ''/final_model.pth'',
                          detailed_metrics = metrics_dict prec rec f1\<rparr>))))"



section \<open>Example inputs\<close>

text \<open>Ten labelled files in two classes of five (scenario A of the specification).\<close>

definition scenario_A :: dataset where
  "scenario_A =
     \<lparr>ds_name = ''drawings'', ds_status = ''ready'',
      file_ids = [''f1'', ''f2'', ''f3'', ''f4'', ''f5'', ''f6'', ''f7'', ''f8'', ''f9'', ''f10''],
      labels = Some (map_of
        [(''f1'', 0), (''f2'', 1), (''f3'', 0), (''f4'', 1), (''f5'', 0),
         (''f6'', 1), (''f7'', 0), (''f8'', 1), (''f9'', 0), (''f10'', 1)])\<rparr>"



text \<open>An environment, a job row with a given status, and a store holding it as job J1.\<close>

definition env0 :: env where
  "env0 = \<lparr>float_repr = repr_integral, utcnow = 1000,
            strftime = (\<lambda>t. ''20240101_000000''), uuid4 = ''M1'',
            model_storage_path = ''./models''\<rparr>"

definition job_with_status :: "string \<Rightarrow> training_job" where
  "job_with_status st =
     \<lparr>job_name = ''job'', job_dataset_id = ''D1'', job_model_type = ''cnn'', status = st,
      job_config = [], hyperparameters = [],
      current_epoch = PInt 0, total_epochs = PInt 50, progress_percentage = PFloat (Finite 0),
      training_loss = PNone, validation_loss = PNone, accuracy = PNone,
      precision = PNone, recall = PNone, f1_score = PNone,
      started_at = None, completed_at = None, estimated_completion = None,
      model_path = None, error_message = None, celery_task_id = None,
      created_by = ''u1'', updated_at = 0\<rparr>"

definition store_of :: "training_job \<Rightarrow> (string \<rightharpoonup> dataset) \<Rightarrow> sys" where
  "store_of j ds =
     \<lparr>jobs = [''J1'' \<mapsto> j], datasets = ds, models = [], redis = Map.empty, revoked = []\<rparr>"

text \<open>A trainer that emits nothing and raises an exception with the given message.\<close>

definition raising_trainer :: "string \<Rightarrow> string \<Rightarrow> trainer_run" where
  "raising_trainer cls msg = (\<lambda>mconfig tconfig dataset_cfg save_dir. ([], Inl (Raised cls msg)))"

text \<open>The store with job J1 queued and the ready dataset of scenario A as D1.\<close>

definition ready_store :: sys where
  "ready_store = store_of (job_with_status ''queued'') [''D1'' \<mapsto> scenario_A]"

text \<open>
  A model with one parameter tensor, numerics whose every optimisation step adds one to
  it, one batch per epoch, and a validation loss that is 1 for the weight 1 and 2 for any
  other weight: the validation losses of a run from weight 0 are 1, 2, 2, ...
\<close>

definition drifting :: "int numerics" where
  "drifting =
     \<lparr>n_batches = 1, n_val_batches = 1,
      train_batch = (\<lambda>epoch batch_idx st. (\<lambda>a. st a + 1, Finite 0.5)),
      train_accuracy = (\<lambda>epoch. Finite 0.5),
      validate = (\<lambda>ws. (if ws = [(''w'', 1)] then Finite 1 else Finite 2,
                          Finite 0.5, Finite 0.5, Finite 0.5, Finite 0.5)),
      learning_rate_at = (\<lambda>epoch. Finite 0.001)\<rparr>"

definition drifting_trainer :: "(string \<times> pyval) list \<Rightarrow> int trainer" where
  "drifting_trainer training_config = new_trainer training_config (\<lambda>a. 0) [(''w'', 0)]"


section \<open>Properties of dataset preparation\<close>

lemma split_index_div: "split_index n = (4 * n) div 5"
proof -
  have e: "real n * 0.8 = real (4 * n) / real 5" by simp
  have f: "\<lfloor>real (4 * n) / real 5\<rfloor> = int ((4 * n) div 5)"
    by (rule floor_divide_of_nat_eq)
  show ?thesis unfolding split_index_def e f by (simp only: nat_int)
qed

lemma split_index_le: "split_index n \<le> n"
  by (simp add: split_index_div)

lemma fold_filter_labels:
  "fold (\<lambda>fid m. case lbls fid of None \<Rightarrow> m | Some l \<Rightarrow> m(fid \<mapsto> l)) files m0 x =
     (if x \<in> set files then (case lbls x of None \<Rightarrow> m0 x | Some l \<Rightarrow> Some l) else m0 x)"
  by (induction files arbitrary: m0) (auto split: option.splits)

lemma filter_labels_restrict: "filter_labels lbls files = lbls |` set files"
  by (rule ext) (simp add: filter_labels_def fold_filter_labels restrict_map_def split: option.splits)


lemma prepare_dataset_config_eq:
  "prepare_dataset_config d =
     Inr \<lparr>train_files = take (split_index (length (file_ids d))) (file_ids d),
          val_files = drop (split_index (length (file_ids d))) (file_ids d),
          train_labels = labels_or_empty d |` set (take (split_index (length (file_ids d))) (file_ids d)),
          val_labels = labels_or_empty d |` set (drop (split_index (length (file_ids d))) (file_ids d)),
          augmentation = default_augmentation\<rparr>"
  by (simp add: prepare_dataset_config_def Let_def filter_labels_restrict)






section \<open>Properties of the job lifecycle\<close>

lemma jobs_update_row:
  "jobs (update_row job_id f s) = (case jobs s job_id of None \<Rightarrow> jobs s | Some j \<Rightarrow> (jobs s)(job_id \<mapsto> f j))"
  by (simp add: update_row_def split: option.splits)

lemma update_row_other [simp]:
  "models (update_row job_id f s) = models s"
  "datasets (update_row job_id f s) = datasets s"
  "redis (update_row job_id f s) = redis s"
  "revoked (update_row job_id f s) = revoked s"
  by (simp_all add: update_row_def split: option.splits)

lemma jobs_update_row_Some:
  "jobs s job_id = Some j \<Longrightarrow> jobs (update_row job_id f s) job_id = Some (f j)"
  by (simp add: jobs_update_row)

lemma status_status_update_data [simp]:
  "status (status_update_data now st task_id err j) = st"
  by (simp add: status_update_data_def Let_def)

lemma error_status_update_data:
  "error_message (status_update_data now st task_id err j) =
     (if truthy err then err else error_message j)"
  by (simp add: status_update_data_def Let_def)

lemma update_training_job_status_other [simp]:
  "models (update_training_job_status e job_id st task_id err s) = models s"
  "datasets (update_training_job_status e job_id st task_id err s) = datasets s"
  "redis (update_training_job_status e job_id st task_id err s) = redis s"
  "revoked (update_training_job_status e job_id st task_id err s) = revoked s"
  by (simp_all add: update_training_job_status_def)

lemma update_training_job_status_job:
  "jobs s job_id = Some j \<Longrightarrow>
     jobs (update_training_job_status e job_id st task_id err s) job_id =
       Some (status_update_data (utcnow e) st task_id err j)"
  by (simp add: update_training_job_status_def jobs_update_row_Some)

text \<open>
  Claim C1, as the code has it. The code has no \<^verbatim>\<open>InvalidStateTransitionError\<close> and
  the tasks do not look at the current status: the status update writes the status it is
  given and the cancellation task writes \<^verbatim>\<open>cancelled\<close>, whatever the job's status was.
  The one guard is in the cancel route: for a job of the caller's whose status is neither
  \<^verbatim>\<open>queued\<close> nor \<^verbatim>\<open>running\<close> it answers with HTTP 400 and leaves the whole state, the
  job record included, as it was.
\<close>

theorem transitions_as_coded:
  assumes "jobs s job_id = Some j"
  shows "map_option status (jobs (update_training_job_status e job_id st task_id err s) job_id) = Some st
       \<and> map_option status (jobs (snd (cancel_training_job_task e job_id s)) job_id) = Some ''cancelled''
       \<and> (created_by j = user \<and> status j \<noteq> ''queued'' \<and> status j \<noteq> ''running'' \<longrightarrow>
            cancel_training_job e job_id user s =
              (Inl (HTTPException 400 (''Cannot cancel job with status: '' @ status j)), s))"
proof (intro conjI impI)
  show "map_option status (jobs (update_training_job_status e job_id st task_id err s) job_id) = Some st"
    using assms by (simp add: update_training_job_status_job)
  show "map_option status (jobs (snd (cancel_training_job_task e job_id s)) job_id) = Some ''cancelled''"
    using assms by (simp add: cancel_training_job_task_def Let_def update_training_job_status_job)
  show "cancel_training_job e job_id user s =
          (Inl (HTTPException 400 (''Cannot cancel job with status: '' @ status j)), s)"
    if "created_by j = user \<and> status j \<noteq> ''queued'' \<and> status j \<noteq> ''running''"
    using assms that by (simp add: cancel_training_job_def)
qed

text \<open>A completed job: the route rejects the cancellation and changes nothing; the status
  update and the cancellation task overwrite the terminal status.\<close>

theorem transitions_as_coded_witness:
  "map_option status
     (jobs (update_training_job_status env0 ''J1'' ''running'' None None
              (store_of (job_with_status ''completed'') Map.empty)) ''J1'') = Some ''running''
   \<and> map_option status
     (jobs (snd (cancel_training_job_task env0 ''J1''
              (store_of (job_with_status ''completed'') Map.empty))) ''J1'') = Some ''cancelled''
   \<and> cancel_training_job env0 ''J1'' ''u1'' (store_of (job_with_status ''completed'') Map.empty) =
       (Inl (HTTPException 400 ''Cannot cancel job with status: completed''),
        store_of (job_with_status ''completed'') Map.empty)"
proof -
  have j: "jobs (store_of (job_with_status ''completed'') Map.empty) ''J1'' =
             Some (job_with_status ''completed'')"
    by (simp add: store_of_def)
  have c: "created_by (job_with_status ''completed'') = ''u1''"
    and st: "status (job_with_status ''completed'') = ''completed''"
    by (simp_all add: job_with_status_def)
  show ?thesis
    using transitions_as_coded [OF j, where e = env0 and st = "''running''" and task_id = None
        and err = None and user = "''u1''"]
    by (simp add: st c)
qed

text \<open>
  The claim fails on the cancellation task: run on a completed job it reports success and
  the job record read back afterwards has status \<^verbatim>\<open>cancelled\<close>.
\<close>

theorem terminal_state_counterexample:
  "fst (cancel_training_job_task env0 ''J1'' (store_of (job_with_status ''completed'') Map.empty)) = True
   \<and> jobs (snd (cancel_training_job_task env0 ''J1'' (store_of (job_with_status ''completed'') Map.empty))) ''J1''
       \<noteq> jobs (store_of (job_with_status ''completed'') Map.empty) ''J1''
   \<and> map_option status
       (jobs (snd (cancel_training_job_task env0 ''J1'' (store_of (job_with_status ''completed'') Map.empty))) ''J1'')
       = Some ''cancelled''"
proof -
  have j: "jobs (store_of (job_with_status ''completed'') Map.empty) ''J1'' =
             Some (job_with_status ''completed'')"
    by (simp add: store_of_def)
  have a: "jobs (snd (cancel_training_job_task env0 ''J1'' (store_of (job_with_status ''completed'') Map.empty))) ''J1''
            = Some (status_update_data (utcnow env0) ''cancelled'' None None (job_with_status ''completed''))"
    by (simp add: cancel_training_job_task_def Let_def update_training_job_status_job [OF j])
  have b: "status (job_with_status ''completed'') = ''completed''"
    by (simp add: job_with_status_def)
  have ne: "status_update_data (utcnow env0) ''cancelled'' None None (job_with_status ''completed'')
              \<noteq> job_with_status ''completed''"
  proof
    assume "status_update_data (utcnow env0) ''cancelled'' None None (job_with_status ''completed'')
              = job_with_status ''completed''"
    then have "status (status_update_data (utcnow env0) ''cancelled'' None None (job_with_status ''completed''))
              = status (job_with_status ''completed'')" by simp
    then show False by (simp add: b)
  qed
  have f: "fst (cancel_training_job_task env0 ''J1'' (store_of (job_with_status ''completed'') Map.empty)) = True"
    by (simp add: cancel_training_job_task_def Let_def)
  show ?thesis
    unfolding a j using ne f by simp
qed


section \<open>Properties of the training task\<close>

lemma update_training_progress_other [simp]:
  "models (update_training_progress e job_id p s) = models s"
  "datasets (update_training_progress e job_id p s) = datasets s"
  "revoked (update_training_progress e job_id p s) = revoked s"
  by (simp_all add: update_training_progress_def Let_def)

lemma update_training_progress_job:
  "jobs s job_id = Some j \<Longrightarrow>
     jobs (update_training_progress e job_id p s) job_id =
       Some (if metrics_ok p then progress_update_data (utcnow e) p j else j)"
  by (simp add: update_training_progress_def Let_def jobs_update_row_Some)

lemma progress_writes_last:
  "jobs s job_id = Some j \<Longrightarrow>
     models (last (s # progress_writes e job_id ps s)) = models s
     \<and> datasets (last (s # progress_writes e job_id ps s)) = datasets s
     \<and> (\<exists>j'. jobs (last (s # progress_writes e job_id ps s)) job_id = Some j')"
proof (induction ps arbitrary: s j)
  case Nil
  then show ?case by simp
next
  case (Cons p ps)
  let ?s' = "update_training_progress e job_id p s"
  have "jobs ?s' job_id = Some (if metrics_ok p then progress_update_data (utcnow e) p j else j)"
    using Cons.prems by (rule update_training_progress_job)
  from Cons.IH [OF this] show ?case
    by (simp add: Let_def)
qed

lemma task_failed_facts:
  assumes "sts \<noteq> []" and "jobs (last sts) job_id = Some j"
  shows "fst (task_failed e task_id job_id ex sts) = TrainFailed (str_of_exception ex)
       \<and> map_option status (jobs (last (snd (task_failed e task_id job_id ex sts))) job_id) = Some ''failed''
       \<and> map_option error_message (jobs (last (snd (task_failed e task_id job_id ex sts))) job_id) =
           Some (if str_of_exception ex = [] then error_message j else Some (str_of_exception ex))
       \<and> models (last (snd (task_failed e task_id job_id ex sts))) = models (last sts)"
  using assms
  by (simp add: task_failed_def update_training_job_status_job error_status_update_data truthy_def)

text \<open>
  Claim C2, as the code has it. The task stores \<^verbatim>\<open>running\<close> as its first statement,
  before it looks the dataset up. When the dataset is missing or not ready, the states
  the task leaves are that one and the one with \<^verbatim>\<open>failed\<close> and the message of the
  \<^verbatim>\<open>ValueError\<close>: the job goes from \<^verbatim>\<open>running\<close> to \<^verbatim>\<open>failed\<close>, the trainer is not
  run and no model record is created.
\<close>

theorem dataset_not_ready_trace:
  assumes "jobs s job_id = Some j"
    and "datasets s dataset_id = None \<or> (\<exists>d. datasets s dataset_id = Some d \<and> ds_status d \<noteq> ''ready'')"
  shows "map (\<lambda>s'. map_option status (jobs s' job_id))
           (snd (train_cad_model_task e trainer task_id job_id dataset_id mconfig tconfig user s))
           = [Some ''running'', Some ''failed'']
       \<and> fst (train_cad_model_task e trainer task_id job_id dataset_id mconfig tconfig user s)
           = TrainFailed (''Dataset '' @ dataset_id @
               (if datasets s dataset_id = None then '' not found'' else '' is not ready for training''))
       \<and> map_option error_message
           (jobs (last (snd (train_cad_model_task e trainer task_id job_id dataset_id mconfig tconfig user s))) job_id)
           = Some (Some (''Dataset '' @ dataset_id @
               (if datasets s dataset_id = None then '' not found'' else '' is not ready for training'')))
       \<and> models (last (snd (train_cad_model_task e trainer task_id job_id dataset_id mconfig tconfig user s)))
           = models s"
proof -
  let ?s1 = "update_training_job_status e job_id ''running'' task_id None s"
  have j1: "jobs ?s1 job_id = Some (status_update_data (utcnow e) ''running'' task_id None j)"
    using assms(1) by (rule update_training_job_status_job)
  have d1: "datasets ?s1 = datasets s" by simp
  from assms(2) show ?thesis
  proof
    assume n: "datasets s dataset_id = None"
    show ?thesis
      using j1 n
      by (simp add: train_cad_model_task_def Let_def task_failed_def
          update_training_job_status_job error_status_update_data truthy_def)
  next
    assume "\<exists>d. datasets s dataset_id = Some d \<and> ds_status d \<noteq> ''ready''"
    then obtain d where d: "datasets s dataset_id = Some d" "ds_status d \<noteq> ''ready''" by blast
    show ?thesis
      using j1 d
      by (simp add: train_cad_model_task_def Let_def task_failed_def
          update_training_job_status_job error_status_update_data truthy_def)
  qed
qed

text \<open>A queued job whose dataset does not exist.\<close>

theorem dataset_not_ready_trace_witness:
  "map (\<lambda>s'. map_option status (jobs s' ''J1''))
     (snd (train_cad_model_task env0 (raising_trainer ''RuntimeError'' ''boom'') (Some ''T1'') ''J1'' ''D1'' [] [] ''u1''
        (store_of (job_with_status ''queued'') Map.empty)))
     = [Some ''running'', Some ''failed'']
   \<and> fst (train_cad_model_task env0 (raising_trainer ''RuntimeError'' ''boom'') (Some ''T1'') ''J1'' ''D1'' [] [] ''u1''
        (store_of (job_with_status ''queued'') Map.empty))
     = TrainFailed ''Dataset D1 not found''"
proof -
  have j: "jobs (store_of (job_with_status ''queued'') Map.empty) ''J1'' = Some (job_with_status ''queued'')"
    by (simp add: store_of_def)
  have d: "datasets (store_of (job_with_status ''queued'') Map.empty) ''D1'' = None
           \<or> (\<exists>d. datasets (store_of (job_with_status ''queued'') Map.empty) ''D1'' = Some d \<and> ds_status d \<noteq> ''ready'')"
    by (simp add: store_of_def)
  have n: "datasets (store_of (job_with_status ''queued'') Map.empty) ''D1'' = None"
    by (simp add: store_of_def)
  show ?thesis
    using dataset_not_ready_trace [OF j d, of env0 "raising_trainer ''RuntimeError'' ''boom''" "Some ''T1''" "[]" "[]" "''u1''"]
    by (simp add: n)
qed

text \<open>
  The claim fails at the first state the task leaves: with the dataset missing, the job
  record stored by the first write has status \<^verbatim>\<open>running\<close>.
\<close>

theorem dataset_not_ready_counterexample:
  "map_option status
     (jobs (hd (snd (train_cad_model_task env0 (raising_trainer ''RuntimeError'' ''boom'') (Some ''T1'') ''J1'' ''D1'' [] [] ''u1''
        (store_of (job_with_status ''queued'') Map.empty)))) ''J1'')
     = Some ''running''"
proof -
  have j: "jobs (store_of (job_with_status ''queued'') Map.empty) ''J1'' = Some (job_with_status ''queued'')"
    by (simp add: store_of_def)
  have n: "datasets (store_of (job_with_status ''queued'') Map.empty) ''D1'' = None"
    by (simp add: store_of_def)
  show ?thesis
    using n by (simp add: train_cad_model_task_def Let_def task_failed_def update_training_job_status_job [OF j])
qed

lemma error_progress_update_data [simp]:
  "error_message (progress_update_data now p j) = error_message j"
  "status (progress_update_data now p j) = status j"
  by (simp_all add: progress_update_data_def Let_def split: option.splits pyval.splits)

lemma progress_writes_last_job:
  "jobs s job_id = Some j \<Longrightarrow>
     \<exists>j'. jobs (last (s # progress_writes e job_id ps s)) job_id = Some j'
          \<and> error_message j' = error_message j \<and> status j' = status j"
proof (induction ps arbitrary: s j)
  case Nil
  then show ?case by simp
next
  case (Cons p ps)
  let ?j = "if metrics_ok p then progress_update_data (utcnow e) p j else j"
  have "jobs (update_training_progress e job_id p s) job_id = Some ?j"
    using Cons.prems by (rule update_training_progress_job)
  from Cons.IH [OF this] show ?case
    by (auto simp: Let_def)
qed

lemma status_update_running_error [simp]:
  "error_message (status_update_data now ''running'' task_id None j) = error_message j"
  by (simp add: error_status_update_data truthy_def)

text \<open>
  What the task leaves, by its result. On failure the job is \<^verbatim>\<open>failed\<close>, no model
  record was added, and the message is stored when it is not empty. On success exactly
  one model record was added, for this job, and the job is \<^verbatim>\<open>completed\<close>.
\<close>

lemma train_task_outcome:
  assumes j: "jobs s job_id = Some j"
  shows "case fst (train_cad_model_task e trainer task_id job_id dataset_id mconfig tconfig user s) of
           TrainFailed msg \<Rightarrow>
             map_option status (jobs (last (snd (train_cad_model_task e trainer task_id job_id dataset_id mconfig tconfig user s))) job_id)
               = Some ''failed''
             \<and> map_option error_message (jobs (last (snd (train_cad_model_task e trainer task_id job_id dataset_id mconfig tconfig user s))) job_id)
               = Some (if msg = [] then error_message j else Some msg)
             \<and> models (last (snd (train_cad_model_task e trainer task_id job_id dataset_id mconfig tconfig user s))) = models s
         | TrainSucceeded mid res \<Rightarrow>
             map_option status (jobs (last (snd (train_cad_model_task e trainer task_id job_id dataset_id mconfig tconfig user s))) job_id)
               = Some ''completed''
             \<and> (\<exists>m. models (last (snd (train_cad_model_task e trainer task_id job_id dataset_id mconfig tconfig user s))) = models s @ [m]
                    \<and> training_job_id m = job_id \<and> model_id m = mid)"
proof -
  let ?s1 = "update_training_job_status e job_id ''running'' task_id None s"
  let ?j1 = "status_update_data (utcnow e) ''running'' task_id None j"
  have j1: "jobs ?s1 job_id = Some ?j1"
    using j by (rule update_training_job_status_job)
  have e1: "error_message ?j1 = error_message j" by simp
  have fail1:
     "fst (task_failed e task_id job_id ex [?s1]) = TrainFailed (str_of_exception ex)
    \<and> map_option status (jobs (last (snd (task_failed e task_id job_id ex [?s1]))) job_id) = Some ''failed''
    \<and> map_option error_message (jobs (last (snd (task_failed e task_id job_id ex [?s1]))) job_id)
        = Some (if str_of_exception ex = [] then error_message j else Some (str_of_exception ex))
    \<and> models (last (snd (task_failed e task_id job_id ex [?s1]))) = models s" for ex
  proof -
    have a: "[?s1] \<noteq> []" by simp
    have b: "jobs (last [?s1]) job_id = Some ?j1" using j1 by simp
    have c: "models (last [?s1]) = models s" by simp
    show ?thesis
      using task_failed_facts [OF a b, of e task_id ex] unfolding e1 c .
  qed
  show ?thesis
  proof (cases "datasets s dataset_id")
    case None
    then show ?thesis
      using fail1 [of "ValueError (''Dataset '' @ dataset_id @ '' not found'')"]
      by (simp add: train_cad_model_task_def Let_def)
  next
    case (Some d)
    show ?thesis
    proof (cases "ds_status d = ''ready''")
      case False
      then show ?thesis
        using Some fail1 [of "ValueError (''Dataset '' @ dataset_id @ '' is not ready for training'')"]
        by (simp add: train_cad_model_task_def Let_def)
    next
      case True
      obtain cfg where cfg: "prepare_dataset_config d = Inr cfg"
        by (simp add: prepare_dataset_config_eq)
      obtain payloads outcome where
        tr: "trainer mconfig tconfig cfg (model_storage_path e @ ''/'' @ job_id) = (payloads, outcome)"
        by (cases "trainer mconfig tconfig cfg (model_storage_path e @ ''/'' @ job_id)")
      let ?sts = "?s1 # progress_writes e job_id payloads ?s1"
      obtain j2 where j2: "jobs (last ?sts) job_id = Some j2" "error_message j2 = error_message ?j1"
        using progress_writes_last_job [OF j1, of e payloads] by blast
      have m2: "models (last ?sts) = models s"
        using progress_writes_last [OF j1, of e payloads] by simp
      show ?thesis
      proof (cases outcome)
        case (Inl ex)
        have ne: "?sts \<noteq> []" by simp
        have "fst (task_failed e task_id job_id ex ?sts) = TrainFailed (str_of_exception ex)
          \<and> map_option status (jobs (last (snd (task_failed e task_id job_id ex ?sts))) job_id) = Some ''failed''
          \<and> map_option error_message (jobs (last (snd (task_failed e task_id job_id ex ?sts))) job_id)
              = Some (if str_of_exception ex = [] then error_message j else Some (str_of_exception ex))
          \<and> models (last (snd (task_failed e task_id job_id ex ?sts))) = models s"
          using task_failed_facts [OF ne j2(1), of e task_id ex] unfolding j2(2) e1 m2 .
        then show ?thesis
          using Some True cfg tr Inl
          by (simp add: train_cad_model_task_def Let_def del: last.simps progress_writes.simps)
      next
        case (Inr res)
        let ?s2 = "create_model e job_id dataset_id d mconfig res user (last ?sts)"
        let ?s3 = "update_training_job_completion e job_id res ?s2"
        have js2: "jobs ?s2 job_id = Some j2"
          using j2 by (simp add: create_model_def)
        have ms3: "\<exists>m. models ?s3 = models s @ [m] \<and> training_job_id m = job_id \<and> model_id m = uuid4 e"
          unfolding update_training_job_completion_def update_row_other create_model_def
          using m2 by simp
        have st3: "map_option status (jobs ?s3 job_id) = Some ''completed''"
          using js2 by (simp add: update_training_job_completion_def jobs_update_row_Some)
        have run: "train_cad_model_task e trainer task_id job_id dataset_id mconfig tconfig user s
                     = (TrainSucceeded (uuid4 e) res, ?sts @ [?s2, ?s3])"
          using Some True cfg tr Inr
          by (simp add: train_cad_model_task_def Let_def del: last.simps progress_writes.simps)
        have l: "last (?sts @ [?s2, ?s3]) = ?s3" by simp
        show ?thesis
          unfolding run fst_conv snd_conv l train_result.case using st3 ms3 by blast
      qed
    qed
  qed
qed

text \<open>
  Claim C3, at an exception whose text is empty. The dataset is ready and the trainer
  raises an exception with \<^verbatim>\<open>str(e) = ""\<close> (the task runner's soft time limit raises
  such an exception inside the task). The job ends \<^verbatim>\<open>failed\<close> and no model record is
  created, but \<^verbatim>\<open>if error_message:\<close> skips the empty string and the error message of the
  job stays null.
\<close>

theorem empty_message_leaves_error_null:
  "fst (train_cad_model_task env0 (raising_trainer ''SoftTimeLimitExceeded'' []) (Some ''T1'') ''J1'' ''D1'' [] [] ''u1'' ready_store)
     = TrainFailed []
   \<and> map_option status
       (jobs (last (snd (train_cad_model_task env0 (raising_trainer ''SoftTimeLimitExceeded'' []) (Some ''T1'') ''J1'' ''D1'' [] [] ''u1'' ready_store))) ''J1'')
     = Some ''failed''
   \<and> map_option error_message
       (jobs (last (snd (train_cad_model_task env0 (raising_trainer ''SoftTimeLimitExceeded'' []) (Some ''T1'') ''J1'' ''D1'' [] [] ''u1'' ready_store))) ''J1'')
     = Some None
   \<and> models (last (snd (train_cad_model_task env0 (raising_trainer ''SoftTimeLimitExceeded'' []) (Some ''T1'') ''J1'' ''D1'' [] [] ''u1'' ready_store)))
     = []"
proof -
  have j: "jobs ready_store ''J1'' = Some (job_with_status ''queued'')"
    by (simp add: ready_store_def store_of_def)
  have f: "fst (train_cad_model_task env0 (raising_trainer ''SoftTimeLimitExceeded'' []) (Some ''T1'') ''J1'' ''D1'' [] [] ''u1'' ready_store)
             = TrainFailed []"
    by (simp add: train_cad_model_task_def Let_def ready_store_def store_of_def scenario_A_def
        prepare_dataset_config_eq raising_trainer_def task_failed_def)
  have m: "models ready_store = []" "error_message (job_with_status ''queued'') = None"
    by (simp_all add: ready_store_def store_of_def job_with_status_def)
  show ?thesis
    using train_task_outcome [OF j, of env0 "raising_trainer ''SoftTimeLimitExceeded'' []" "Some ''T1''" "''D1''" "[]" "[]" "''u1''"]
    unfolding f by (simp add: m)
qed


section \<open>Properties of the configuration defaults\<close>

lemma map_of_dict_merge_absent:
  "map_of b k = None \<Longrightarrow> map_of (dict_merge a b) k = map_of a k"
  unfolding dict_merge_def
proof (induction b arbitrary: a)
  case Nil
  then show ?case by simp
next
  case (Cons kv b)
  then have "fst kv \<noteq> k" and "map_of b k = None"
    by (cases kv; auto split: if_splits)+
  then show ?case
    using Cons.IH [of "AList.update (fst kv) (snd kv) a"] by (simp add: update_conv')
qed

text \<open>
  Through the route, a request without a key gets the documented default: the merged
  configuration the task and the trainer receive holds 50 epochs, batch size 32,
  learning rate 0.001, weight decay 0.0001 and patience 10.
\<close>

lemma route_supplies_defaults:
  "map_of request ''epochs'' = None \<Longrightarrow>
     epochs (trainer_init (route_training_config request)) = PInt 50
     \<and> job_total_epochs (route_training_config request) = PInt 50"
  "map_of request ''batch_size'' = None \<Longrightarrow>
     batch_size (trainer_init (route_training_config request)) = PInt 32"
  "map_of request ''learning_rate'' = None \<Longrightarrow>
     learning_rate (trainer_init (route_training_config request)) = PFloat (Finite 0.001)"
  "map_of request ''weight_decay'' = None \<Longrightarrow>
     weight_decay (trainer_init (route_training_config request)) = PFloat (Finite 0.0001)"
  "map_of request ''patience'' = None \<Longrightarrow>
     patience (trainer_init (route_training_config request)) = PInt 10"
  by (simp_all add: trainer_init_def job_total_epochs_def dict_get_def route_training_config_def
      map_of_dict_merge_absent)

lemma trainer_init_absent:
  "map_of training_config ''epochs'' = None \<Longrightarrow> epochs (trainer_init training_config) = PInt 100"
  by (simp add: trainer_init_def dict_get_def)

text \<open>
  Claim C9, at the empty training configuration. The trainer's own fallback for a
  missing \<^verbatim>\<open>epochs\<close> key is 100, while the job row created for the same configuration
  records 50 total epochs; the other four fallbacks are the documented ones.
\<close>

theorem trainer_epochs_fallback:
  "epochs (trainer_init []) = PInt 100
   \<and> job_total_epochs [] = PInt 50
   \<and> batch_size (trainer_init []) = PInt 32
   \<and> learning_rate (trainer_init []) = PFloat (Finite 0.001)
   \<and> weight_decay (trainer_init []) = PFloat (Finite 0.0001)
   \<and> patience (trainer_init []) = PInt 10"
  by (simp add: trainer_init_def job_total_epochs_def dict_get_def)


section \<open>Properties of the JSON text\<close>




lemma of_char_zero: "(of_char (CHR ''0'') :: nat) = 48"
  by simp






















lemma skip_ws_simps [simp]:
  "skip_ws [] = []"
  "skip_ws (CHR '' '' # s) = skip_ws s"
  by (simp_all add: skip_ws_def is_ws_def)




lemma starts_with_append: "starts_with p (p @ r)"
  by (simp add: starts_with_def)

lemma digit_not_ws: "is_digit c \<Longrightarrow> \<not> is_ws c"
  by (auto simp: is_digit_def is_ws_def)








lemma is_ws_punct [simp]:
  "\<not> is_ws (CHR '','')" "\<not> is_ws (CHR '']'')" "\<not> is_ws (CHR ''}'')" "\<not> is_ws (CHR '':'')"
  "\<not> is_ws quote"
  by (simp_all add: is_ws_def quote_def)

lemma delimited_simps [simp]:
  "delimited []" "delimited (CHR '','' # r)" "delimited (CHR '']'' # r)" "delimited (CHR ''}'' # r)"
  by (simp_all add: delimited_def)










section \<open>Properties of the progress cache\<close>

lemma cache_get_cache_set:
  "cache_get key (cache_set fr key v expire r) =
     (let text = (case v of PStr s \<Rightarrow> s | _ \<Rightarrow> json_dumps fr v)
      in case json_loads text of Some x \<Rightarrow> x | None \<Rightarrow> PStr text)"
  by (simp add: cache_get_def cache_set_def Let_def)





text \<open>A string that the scanner rejects comes back as it was stored.\<close>

lemma cache_get_undecodable:
  "json_loads s = None \<Longrightarrow> cache_get key (cache_set fr key (PStr s) expire r) = PStr s"
  by (simp add: cache_get_cache_set)






section \<open>Properties of the epoch loop\<close>

lemma fold_batch_step_fields:
  "module_params (fst (fold (batch_step num) bs acc)) = module_params (fst acc)
   \<and> best_model_state (fst (fold (batch_step num) bs acc)) = best_model_state (fst acc)
   \<and> params (fst (fold (batch_step num) bs acc)) = params (fst acc)
   \<and> trainer_epoch (fst (fold (batch_step num) bs acc)) = trainer_epoch (fst acc)
   \<and> best_val_loss (fst (fold (batch_step num) bs acc)) = best_val_loss (fst acc)
   \<and> early_stopping_counter (fst (fold (batch_step num) bs acc)) = early_stopping_counter (fst acc)
   \<and> history_val_loss (fst (fold (batch_step num) bs acc)) = history_val_loss (fst acc)"
proof (induction bs arbitrary: acc)
  case Nil
  then show ?case by simp
next
  case (Cons b bs)
  show ?case
    using Cons.IH [of "batch_step num b acc"]
    by (simp add: batch_step_def Let_def split: prod.splits)
qed

lemma train_epoch_fields:
  assumes "train_epoch num t = Inr (t1, loss, acc)"
  shows "module_params t1 = module_params t" and "best_model_state t1 = best_model_state t"
    and "params t1 = params t" and "trainer_epoch t1 = trainer_epoch t"
    and "best_val_loss t1 = best_val_loss t"
    and "early_stopping_counter t1 = early_stopping_counter t"
    and "history_val_loss t1 = history_val_loss t"
proof -
  have "t1 = fst (fold (batch_step num) [0..<n_batches num] (t, Finite 0))"
    using assms by (simp add: train_epoch_def Let_def split: prod.splits if_splits)
  then show "module_params t1 = module_params t" and "best_model_state t1 = best_model_state t"
    and "params t1 = params t" and "trainer_epoch t1 = trainer_epoch t"
    and "best_val_loss t1 = best_val_loss t"
    and "early_stopping_counter t1 = early_stopping_counter t"
    and "history_val_loss t1 = history_val_loss t"
    using fold_batch_step_fields [of num "[0..<n_batches num]" "(t, Finite 0)"] by simp_all
qed

text \<open>What one pass of the loop does to the early-stopping state.\<close>

lemma run_epoch_effect:
  assumes "run_epoch num n save_dir epoch t = Inr t'"
  shows "\<exists>v. history_val_loss t' = history_val_loss t @ [v]
            \<and> (if float_less v (best_val_loss t)
                then best_val_loss t' = v \<and> early_stopping_counter t' = 0
                     \<and> best_model_state t' = Some (module_params t)
                else best_val_loss t' = best_val_loss t
                     \<and> early_stopping_counter t' = early_stopping_counter t + 1
                     \<and> best_model_state t' = best_model_state t)"
    and "module_params t' = module_params t"
    and "params t' = params t"
    and "trainer_epoch t' = epoch"
proof -
  obtain t1 loss acc where te: "train_epoch num (t\<lparr>trainer_epoch := epoch\<rparr>) = Inr (t1, loss, acc)"
    using assms by (auto simp: run_epoch_def split: sum.splits)
  obtain v va p r f where ve: "validate_epoch num t1 = Inr (v, va, p, r, f)"
    using assms te by (auto simp: run_epoch_def split: sum.splits)
  note fl = train_epoch_fields [OF te, simplified]
  have eq: "Inr t' = run_epoch num n save_dir epoch t" using assms by simp
  have h: "history_val_loss t' = history_val_loss t @ [v]"
    using eq by (auto simp add: run_epoch_def te ve Let_def save_checkpoint_def fl)
  have b: "float_less v (best_val_loss t) \<Longrightarrow>
             best_val_loss t' = v \<and> early_stopping_counter t' = 0
             \<and> best_model_state t' = Some (module_params t)"
    using eq by (auto simp add: run_epoch_def te ve Let_def save_checkpoint_def state_dict_def fl)
  have nb: "\<not> float_less v (best_val_loss t) \<Longrightarrow>
             best_val_loss t' = best_val_loss t
             \<and> early_stopping_counter t' = early_stopping_counter t + 1
             \<and> best_model_state t' = best_model_state t"
    using eq by (auto simp add: run_epoch_def te ve Let_def save_checkpoint_def state_dict_def fl)
  show "\<exists>v. history_val_loss t' = history_val_loss t @ [v]
            \<and> (if float_less v (best_val_loss t)
                then best_val_loss t' = v \<and> early_stopping_counter t' = 0
                     \<and> best_model_state t' = Some (module_params t)
                else best_val_loss t' = best_val_loss t
                     \<and> early_stopping_counter t' = early_stopping_counter t + 1
                     \<and> best_model_state t' = best_model_state t)"
    using h b nb by (intro exI [of _ v]) simp
  show "module_params t' = module_params t" "params t' = params t" "trainer_epoch t' = epoch"
    using eq by (auto simp add: run_epoch_def te ve Let_def save_checkpoint_def fl)
qed

lemma fold_copy_self:
  "(\<And>na. na \<in> set xs \<Longrightarrow> map_of sd (fst na) = Some (snd na)) \<Longrightarrow>
     fold (\<lambda>na st. case map_of sd (fst na) of None \<Rightarrow> st | Some b \<Rightarrow> st(snd na := st b)) xs st = st"
  by (induction xs arbitrary: st) simp_all

text \<open>
  Loading a state dictionary that holds the module's own tensors changes nothing: every
  parameter copies its own value.
\<close>

lemma load_state_dict_self:
  assumes "distinct (map fst (module_params t))"
  shows "load_state_dict (module_params t) t = t"
proof -
  have m: "map_of (module_params t) (fst na) = Some (snd na)" if "na \<in> set (module_params t)" for na
  proof -
    obtain a b where na: "na = (a, b)" by (cases na)
    show ?thesis using map_of_is_SomeI [OF assms, of a b] that by (simp add: na)
  qed
  have "fold (\<lambda>na st. case map_of (module_params t) (fst na) of None \<Rightarrow> st | Some b \<Rightarrow> st(snd na := st b))
               (module_params t) (storage t) = storage t"
    using fold_copy_self [of "module_params t" "module_params t" "storage t"] m by blast
  then show ?thesis
    by (simp add: load_state_dict_def)
qed

lemma epoch_loop_fields:
  "epoch_loop num n save_dir es t = Inr t1 \<Longrightarrow>
     module_params t1 = module_params t \<and> params t1 = params t
     \<and> (\<exists>ys. history_val_loss t1 = history_val_loss t @ ys)
     \<and> (best_model_state t = None \<or> best_model_state t = Some (module_params t) \<longrightarrow>
          best_model_state t1 = None \<or> best_model_state t1 = Some (module_params t))"
proof (induction es arbitrary: t)
  case Nil
  then show ?case by simp
next
  case (Cons e es)
  obtain t' where r: "run_epoch num n save_dir e t = Inr t'"
    using Cons.prems by (auto split: sum.splits)
  note eff = run_epoch_effect [OF r]
  from eff(1) obtain v where v: "history_val_loss t' = history_val_loss t @ [v]"
    and bs: "best_model_state t' = Some (module_params t) \<or> best_model_state t' = best_model_state t"
    by (auto split: if_splits)
  have step: "module_params t' = module_params t \<and> params t' = params t
     \<and> (\<exists>ys. history_val_loss t' = history_val_loss t @ ys)
     \<and> (best_model_state t = None \<or> best_model_state t = Some (module_params t) \<longrightarrow>
          best_model_state t' = None \<or> best_model_state t' = Some (module_params t))"
    using eff(2,3) v bs by auto
  show ?case
  proof (cases "counter_reached (early_stopping_counter t') (patience (params t'))")
    case None
    then show ?thesis using Cons.prems r by simp
  next
    case (Some b)
    show ?thesis
    proof (cases b)
      case True
      then have "t1 = t'" using Cons.prems r Some by simp
      then show ?thesis using step by simp
    next
      case False
      then have go: "epoch_loop num n save_dir es t' = Inr t1" using Cons.prems r Some by simp
      from Cons.IH [OF go] step show ?thesis by auto
    qed
  qed
qed

text \<open>
  After \<^verbatim>\<open>train\<close> the live parameters are the ones the epoch loop left, those of the
  last epoch that ran: the restore of \<^verbatim>\<open>best_model_state\<close> changes no tensor.
\<close>

lemma train_keeps_last_parameters:
  assumes "distinct (map fst mp)"
    and "train num save_dir (new_trainer tconfig st mp) = Inr (t', res)"
  shows "\<exists>n t1. py_index (epochs (trainer_init tconfig)) = Some n
           \<and> epoch_loop num n save_dir [0..<nat n] (new_trainer tconfig st mp) = Inr t1
           \<and> storage t' = storage t1
           \<and> parameter_values t' = parameter_values t1"
proof -
  let ?t0 = "new_trainer tconfig st mp"
  have p0: "params ?t0 = trainer_init tconfig" "module_params ?t0 = mp" "best_model_state ?t0 = None"
    by (simp_all add: new_trainer_def)
  obtain n where n: "py_index (epochs (trainer_init tconfig)) = Some n"
    using assms(2) by (auto simp: train_def p0 split: option.splits)
  obtain t1 where l: "epoch_loop num n save_dir [0..<nat n] ?t0 = Inr t1"
    using assms(2) by (auto simp: train_def p0 n split: sum.splits)
  have f: "module_params t1 = mp" "best_model_state t1 = None \<or> best_model_state t1 = Some mp"
    using epoch_loop_fields [OF l] p0 by auto
  define t2 where "t2 = (case best_model_state t1 of None \<Rightarrow> t1 | Some sd \<Rightarrow> load_state_dict sd t1)"
  have t2: "t2 = t1"
    using f load_state_dict_self [of t1] assms(1) by (auto simp: t2_def)
  have "t' = t1\<lparr>saved := AList.update (save_dir @ ''/final_model.pth'') (parameter_values t1) (saved t1)\<rparr>"
    using assms(2) t2 unfolding t2_def
    by (auto simp: train_def p0 n l Let_def split: sum.splits if_splits)
  then have "storage t' = storage t1 \<and> parameter_values t' = parameter_values t1"
    by (simp add: parameter_values_def)
  with n l show ?thesis by blast
qed

lemma counter_reached_int [simp]: "counter_reached c (PInt (int p)) = Some (p \<le> c)"
  by (simp add: counter_reached_def)

lemma epoch_loop_step:
  assumes "epoch_loop num n save_dir (e # es) t = Inr t1" and "patience (params t) = PInt (int p)"
  obtains t' where "run_epoch num n save_dir e t = Inr t'"
    and "if p \<le> early_stopping_counter t' then t1 = t' else epoch_loop num n save_dir es t' = Inr t1"
proof -
  obtain t' where r: "run_epoch num n save_dir e t = Inr t'"
    using assms(1) by (auto split: sum.splits)
  have pt: "patience (params t') = PInt (int p)"
    using run_epoch_effect(3) [OF r] assms(2) by simp
  have "if p \<le> early_stopping_counter t' then t1 = t' else epoch_loop num n save_dir es t' = Inr t1"
    using assms(1) r pt by (auto split: bool.splits)
  with r show ?thesis using that by blast
qed

text \<open>
  After the best epoch. The counter stands at \<open>k\<close> below the patience \<open>p\<close>, the best loss
  is \<open>vb\<close>, and no later validation loss of the run is below it: the loop runs
  \<open>p - k\<close> more epochs and stops.
\<close>

lemma epoch_loop_no_improvement:
  assumes "epoch_loop num n save_dir [e..<N] t = Inr t1"
    and "patience (params t) = PInt (int p)"
    and "early_stopping_counter t = k" and "k < p"
    and "best_val_loss t = vb"
    and "length (history_val_loss t) = e"
    and "e + (p - k) \<le> N"
    and "\<And>i. e \<le> i \<Longrightarrow> i < length (history_val_loss t1) \<Longrightarrow> \<not> float_less (history_val_loss t1 ! i) vb"
  shows "trainer_epoch t1 + 1 = e + (p - k) \<and> length (history_val_loss t1) = e + (p - k)"
  using assms
proof (induction "p - k" arbitrary: t k e)
  case 0
  then show ?case by simp
next
  case (Suc d)
  have eN: "e < N" using Suc.prems(4,7) by simp
  then have l: "[e..<N] = e # [Suc e..<N]" by (simp add: upt_conv_Cons)
  obtain t' where r: "run_epoch num n save_dir e t = Inr t'"
    and c: "if p \<le> early_stopping_counter t' then t1 = t' else epoch_loop num n save_dir [Suc e..<N] t' = Inr t1"
    using epoch_loop_step [OF Suc.prems(1) [unfolded l] Suc.prems(2)] by blast
  note eff = run_epoch_effect [OF r]
  from eff(1) obtain v where v: "history_val_loss t' = history_val_loss t @ [v]"
    and u: "if float_less v (best_val_loss t)
            then best_val_loss t' = v \<and> early_stopping_counter t' = 0
            else best_val_loss t' = best_val_loss t \<and> early_stopping_counter t' = early_stopping_counter t + 1"
    by (auto split: if_splits)
  have len': "length (history_val_loss t') = Suc e" using v Suc.prems(6) by simp
  have pre: "\<exists>ys. history_val_loss t1 = history_val_loss t' @ ys"
  proof (cases "p \<le> early_stopping_counter t'")
    case True
    then show ?thesis using c by simp
  next
    case False
    then show ?thesis using c epoch_loop_fields [of num n save_dir "[Suc e..<N]" t' t1] by simp
  qed
  then obtain ys where ys: "history_val_loss t1 = history_val_loss t @ [v] @ ys" using v by auto
  have ve: "history_val_loss t1 ! e = v" "e < length (history_val_loss t1)"
    using ys Suc.prems(6) by (simp_all add: nth_append)
  have nb: "\<not> float_less v (best_val_loss t)"
    using Suc.prems(8) [of e] ve Suc.prems(5) by simp
  have c': "early_stopping_counter t' = k + 1" "best_val_loss t' = vb"
    using u nb Suc.prems(3,5) by simp_all
  show ?case
  proof (cases "p \<le> k + 1")
    case True
    then have "t1 = t'" using c c' by simp
    moreover have "p - k = 1" using True Suc.prems(4) by simp
    ultimately show ?thesis using eff(4) len' by simp
  next
    case False
    then have go: "epoch_loop num n save_dir [Suc e..<N] t' = Inr t1" using c c' by simp
    have d: "d = p - (k + 1)" using Suc.hyps(2) by simp
    have "trainer_epoch t1 + 1 = Suc e + (p - (k + 1)) \<and> length (history_val_loss t1) = Suc e + (p - (k + 1))"
    proof (rule Suc.hyps(1) [OF d go])
      show "patience (params t') = PInt (int p)" using eff(3) Suc.prems(2) by simp
      show "early_stopping_counter t' = k + 1" by (rule c'(1))
      show "k + 1 < p" using False by simp
      show "best_val_loss t' = vb" by (rule c'(2))
      show "length (history_val_loss t') = Suc e" by (rule len')
      show "Suc e + (p - (k + 1)) \<le> N" using Suc.prems(7) False by simp
      show "\<And>i. Suc e \<le> i \<Longrightarrow> i < length (history_val_loss t1) \<Longrightarrow> \<not> float_less (history_val_loss t1 ! i) vb"
        using Suc.prems(8) by simp
    qed
    then show ?thesis using False by simp
  qed
qed

text \<open>
  Early stopping. A run of the loop without an exception recorded the validation losses
  \<open>history_val_loss t1\<close>. Epoch \<open>b\<close> ran, its loss is below infinity and strictly
  below every earlier one, and none of the later losses is below it; the patience is
  \<open>p\<close> and the configured epochs reach beyond \<open>b + p\<close>. Then the loop stopped at
  epoch \<open>b + p\<close>, after \<open>b + p + 1\<close> epochs.
\<close>

lemma epoch_loop_stops_after_patience:
  assumes "epoch_loop num n save_dir [a..<N] t = Inr t1"
    and "patience (params t) = PInt (int p)"
    and "length (history_val_loss t) = a" and "a \<le> b"
    and "best_val_loss t = PosInf \<or> (\<exists>j<a. best_val_loss t = history_val_loss t1 ! j)"
    and "b < length (history_val_loss t1)"
    and "float_less (history_val_loss t1 ! b) PosInf"
    and "\<And>j. j < b \<Longrightarrow> float_less (history_val_loss t1 ! b) (history_val_loss t1 ! j)"
    and "\<And>i. b < i \<Longrightarrow> i < length (history_val_loss t1) \<Longrightarrow>
           \<not> float_less (history_val_loss t1 ! i) (history_val_loss t1 ! b)"
    and "b + p < N"
  shows "trainer_epoch t1 = b + p \<and> length (history_val_loss t1) = b + p + 1"
  using assms
proof (induction "b - a" arbitrary: t a)
  case 0
  then have ab: "a = b" by simp
  have l: "[a..<N] = b # [Suc b..<N]" using ab "0.prems"(10) by (simp add: upt_conv_Cons)
  obtain t' where r: "run_epoch num n save_dir b t = Inr t'"
    and c: "if p \<le> early_stopping_counter t' then t1 = t' else epoch_loop num n save_dir [Suc b..<N] t' = Inr t1"
    using epoch_loop_step [OF "0.prems"(1) [unfolded l] "0.prems"(2)] by blast
  note eff = run_epoch_effect [OF r]
  from eff(1) obtain v where v: "history_val_loss t' = history_val_loss t @ [v]"
    and u: "if float_less v (best_val_loss t)
            then best_val_loss t' = v \<and> early_stopping_counter t' = 0
            else best_val_loss t' = best_val_loss t \<and> early_stopping_counter t' = early_stopping_counter t + 1"
    by (auto split: if_splits)
  have len': "length (history_val_loss t') = Suc b" using v "0.prems"(3) ab by simp
  have pre: "\<exists>ys. history_val_loss t1 = history_val_loss t' @ ys"
  proof (cases "p \<le> early_stopping_counter t'")
    case True
    then show ?thesis using c by simp
  next
    case False
    then show ?thesis using c epoch_loop_fields [of num n save_dir "[Suc b..<N]" t' t1] by simp
  qed
  then obtain ys where ys: "history_val_loss t1 = history_val_loss t @ [v] @ ys" using v by auto
  have ve: "history_val_loss t1 ! b = v"
    using ys "0.prems"(3) ab by (simp add: nth_append)
  have best: "float_less v (best_val_loss t)"
    using "0.prems"(5,7,8) ve ab by auto
  have c': "early_stopping_counter t' = 0" "best_val_loss t' = v"
    using u best by simp_all
  show ?case
  proof (cases "p = 0")
    case True
    then have "t1 = t'" using c c' by simp
    then show ?thesis using True eff(4) len' by simp
  next
    case False
    then have go: "epoch_loop num n save_dir [Suc b..<N] t' = Inr t1" using c c' by simp
    have "trainer_epoch t1 + 1 = Suc b + (p - 0) \<and> length (history_val_loss t1) = Suc b + (p - 0)"
    proof (rule epoch_loop_no_improvement [OF go])
      show "patience (params t') = PInt (int p)" using eff(3) "0.prems"(2) by simp
      show "early_stopping_counter t' = 0" by (rule c'(1))
      show "0 < p" using False by simp
      show "best_val_loss t' = v" by (rule c'(2))
      show "length (history_val_loss t') = Suc b" by (rule len')
      show "Suc b + (p - 0) \<le> N" using "0.prems"(10) by simp
      show "\<And>i. Suc b \<le> i \<Longrightarrow> i < length (history_val_loss t1) \<Longrightarrow> \<not> float_less (history_val_loss t1 ! i) v"
        using "0.prems"(9) ve by simp
    qed
    then show ?thesis by simp
  qed
next
  case (Suc d)
  have ab: "a < b" using Suc.hyps(2) by simp
  then have l: "[a..<N] = a # [Suc a..<N]" using Suc.prems(10) by (simp add: upt_conv_Cons)
  obtain t' where r: "run_epoch num n save_dir a t = Inr t'"
    and c: "if p \<le> early_stopping_counter t' then t1 = t' else epoch_loop num n save_dir [Suc a..<N] t' = Inr t1"
    using epoch_loop_step [OF Suc.prems(1) [unfolded l] Suc.prems(2)] by blast
  note eff = run_epoch_effect [OF r]
  from eff(1) obtain v where v: "history_val_loss t' = history_val_loss t @ [v]"
    and u: "best_val_loss t' = v \<or> best_val_loss t' = best_val_loss t"
    by (auto split: if_splits)
  have len': "length (history_val_loss t') = Suc a" using v Suc.prems(3) by simp
  have go: "epoch_loop num n save_dir [Suc a..<N] t' = Inr t1"
  proof (rule ccontr)
    assume "\<not> ?thesis"
    then have "t1 = t'" using c by (simp split: if_splits)
    then have "length (history_val_loss t1) = Suc a" using len' by simp
    then show False using Suc.prems(6) ab by simp
  qed
  obtain ys where ys: "history_val_loss t1 = history_val_loss t @ [v] @ ys"
    using epoch_loop_fields [OF go] v by auto
  have ve: "history_val_loss t1 ! a = v"
    using ys Suc.prems(3) by (simp add: nth_append)
  have inv: "best_val_loss t' = PosInf \<or> (\<exists>j<Suc a. best_val_loss t' = history_val_loss t1 ! j)"
    using u ve Suc.prems(5) less_Suc_eq by auto
  have d: "d = b - Suc a" using Suc.hyps(2) by simp
  show ?case
  proof (rule Suc.hyps(1) [OF d go])
    show "patience (params t') = PInt (int p)" using eff(3) Suc.prems(2) by simp
    show "length (history_val_loss t') = Suc a" by (rule len')
    show "Suc a \<le> b" using ab by simp
    show "best_val_loss t' = PosInf \<or> (\<exists>j<Suc a. best_val_loss t' = history_val_loss t1 ! j)" by (rule inv)
    show "b < length (history_val_loss t1)" by (rule Suc.prems(6))
    show "float_less (history_val_loss t1 ! b) PosInf" by (rule Suc.prems(7))
    show "\<And>j. j < b \<Longrightarrow> float_less (history_val_loss t1 ! b) (history_val_loss t1 ! j)"
      by (rule Suc.prems(8))
    show "\<And>i. b < i \<Longrightarrow> i < length (history_val_loss t1) \<Longrightarrow>
           \<not> float_less (history_val_loss t1 ! i) (history_val_loss t1 ! b)"
      by (rule Suc.prems(9))
    show "b + p < N" by (rule Suc.prems(10))
  qed
qed

lemma load_state_dict_fields [simp]:
  "history_val_loss (load_state_dict sd t) = history_val_loss t"
  "trainer_epoch (load_state_dict sd t) = trainer_epoch t"
  by (simp_all add: load_state_dict_def)

lemma train_loop:
  assumes "train num save_dir t = Inr (t', res)"
  shows "\<exists>n t1. py_index (epochs (params t)) = Some n
           \<and> epoch_loop num n save_dir [0..<nat n] t = Inr t1
           \<and> history_val_loss t' = history_val_loss t1
           \<and> trainer_epoch t' = trainer_epoch t1
           \<and> epochs_trained res = trainer_epoch t1 + 1"
proof -
  obtain n where n: "py_index (epochs (params t)) = Some n"
    using assms by (auto simp: train_def split: option.splits)
  obtain t1 where l: "epoch_loop num n save_dir [0..<nat n] t = Inr t1"
    using assms by (auto simp: train_def n split: sum.splits)
  define t2 where "t2 = (case best_model_state t1 of None \<Rightarrow> t1 | Some sd \<Rightarrow> load_state_dict sd t1)"
  have f2: "history_val_loss t2 = history_val_loss t1" "trainer_epoch t2 = trainer_epoch t1"
    by (simp_all add: t2_def split: option.splits)
  have "t' = t2\<lparr>saved := AList.update (save_dir @ ''/final_model.pth'') (parameter_values t2) (saved t2)\<rparr>
        \<and> epochs_trained res = trainer_epoch t2 + 1"
    using assms unfolding t2_def
    by (auto simp: train_def n l Let_def split: sum.splits if_splits)
  then have "history_val_loss t' = history_val_loss t1 \<and> trainer_epoch t' = trainer_epoch t1
             \<and> epochs_trained res = trainer_epoch t1 + 1"
    using f2 by simp
  with n l show ?thesis by blast
qed

text \<open>
  The first half of claim C4, for every run of \<^verbatim>\<open>train\<close> that returns: with \<open>N\<close> epochs
  configured and an integer patience \<open>p\<close>, if epoch \<open>b\<close> ran with a validation loss
  below infinity and strictly below every earlier one, no later loss of the run is below
  it, and \<open>b + p < N\<close>, then the loop stopped at epoch \<open>b + p\<close>.
\<close>

lemma train_stops_after_patience:
  assumes "train num save_dir (new_trainer tconfig st mp) = Inr (t', res)"
    and "epochs (trainer_init tconfig) = PInt (int N)"
    and "patience (trainer_init tconfig) = PInt (int p)"
    and "b < length (history_val_loss t')"
    and "float_less (history_val_loss t' ! b) PosInf"
    and "\<And>j. j < b \<Longrightarrow> float_less (history_val_loss t' ! b) (history_val_loss t' ! j)"
    and "\<And>i. b < i \<Longrightarrow> i < length (history_val_loss t') \<Longrightarrow>
           \<not> float_less (history_val_loss t' ! i) (history_val_loss t' ! b)"
    and "b + p < N"
  shows "trainer_epoch t' = b + p \<and> epochs_trained res = b + p + 1
         \<and> length (history_val_loss t') = b + p + 1"
proof -
  let ?t0 = "new_trainer tconfig st mp"
  have p0: "params ?t0 = trainer_init tconfig" "history_val_loss ?t0 = []" "best_val_loss ?t0 = PosInf"
    by (simp_all add: new_trainer_def)
  obtain n t1 where n: "py_index (epochs (params ?t0)) = Some n"
    and l: "epoch_loop num n save_dir [0..<nat n] ?t0 = Inr t1"
    and h: "history_val_loss t' = history_val_loss t1"
    and e: "trainer_epoch t' = trainer_epoch t1" "epochs_trained res = trainer_epoch t1 + 1"
    using train_loop [OF assms(1)] by blast
  have nN: "nat n = N" using n assms(2) by (simp add: p0 py_index_def)
  have "trainer_epoch t1 = b + p \<and> length (history_val_loss t1) = b + p + 1"
  proof (rule epoch_loop_stops_after_patience [OF l [unfolded nN]])
    show "patience (params ?t0) = PInt (int p)" using assms(3) by (simp add: p0)
    show "length (history_val_loss ?t0) = 0" by (simp add: p0)
    show "0 \<le> b" by simp
    show "best_val_loss ?t0 = PosInf \<or> (\<exists>j<0. best_val_loss ?t0 = history_val_loss t1 ! j)"
      by (simp add: p0)
    show "b < length (history_val_loss t1)" using assms(4) h by simp
    show "float_less (history_val_loss t1 ! b) PosInf" using assms(5) h by simp
    show "\<And>j. j < b \<Longrightarrow> float_less (history_val_loss t1 ! b) (history_val_loss t1 ! j)"
      using assms(6) h by simp
    show "\<And>i. b < i \<Longrightarrow> i < length (history_val_loss t1) \<Longrightarrow>
           \<not> float_less (history_val_loss t1 ! i) (history_val_loss t1 ! b)"
      using assms(7) h by simp
    show "b + p < N" by (rule assms(8))
  qed
  then show ?thesis using h e by simp
qed

text \<open>
  The epochs of the payloads the trainer emits never decrease. The invariant of the
  loops: the payloads emitted so far carry epoch numbers in non-decreasing order, none
  above the epoch that is running.
\<close>

lemma emitted_snoc_epoch:
  assumes "\<exists>ks. map (\<lambda>p. dict_get p ''epoch'' (PInt 0)) ps = map (\<lambda>k. PInt (int k)) ks
              \<and> sorted ks \<and> (\<forall>k\<in>set ks. k \<le> e)"
    and "dict_get p ''epoch'' (PInt 0) = PInt (int e')" and "e \<le> e'"
  shows "\<exists>ks. map (\<lambda>p. dict_get p ''epoch'' (PInt 0)) (ps @ [p]) = map (\<lambda>k. PInt (int k)) ks
              \<and> sorted ks \<and> (\<forall>k\<in>set ks. k \<le> e')"
proof -
  from assms(1) obtain ks where ks: "map (\<lambda>p. dict_get p ''epoch'' (PInt 0)) ps = map (\<lambda>k. PInt (int k)) ks"
    "sorted ks" "\<forall>k\<in>set ks. k \<le> e" by blast
  have "map (\<lambda>p. dict_get p ''epoch'' (PInt 0)) (ps @ [p]) = map (\<lambda>k. PInt (int k)) (ks @ [e'])"
    using ks(1) assms(2) by simp
  moreover have "sorted (ks @ [e'])" using ks(2,3) assms(3) by (auto simp: sorted_append)
  moreover have "\<forall>k\<in>set (ks @ [e']). k \<le> e'" using ks(3) assms(3) by auto
  ultimately show ?thesis by blast
qed

lemma fold_batch_step_emitted:
  assumes "\<exists>ks. map (\<lambda>p. dict_get p ''epoch'' (PInt 0)) (emitted (fst acc)) = map (\<lambda>k. PInt (int k)) ks
              \<and> sorted ks \<and> (\<forall>k\<in>set ks. k \<le> trainer_epoch (fst acc))"
  shows "\<exists>ks. map (\<lambda>p. dict_get p ''epoch'' (PInt 0)) (emitted (fst (fold (batch_step num) bs acc)))
                 = map (\<lambda>k. PInt (int k)) ks
              \<and> sorted ks \<and> (\<forall>k\<in>set ks. k \<le> trainer_epoch (fst acc))"
  using assms
proof (induction bs arbitrary: acc)
  case Nil
  then show ?case by simp
next
  case (Cons b bs)
  let ?acc = "batch_step num b acc"
  have te: "trainer_epoch (fst ?acc) = trainer_epoch (fst acc)"
    by (simp add: batch_step_def Let_def split: prod.splits)
  have "\<exists>ks. map (\<lambda>p. dict_get p ''epoch'' (PInt 0)) (emitted (fst ?acc)) = map (\<lambda>k. PInt (int k)) ks
              \<and> sorted ks \<and> (\<forall>k\<in>set ks. k \<le> trainer_epoch (fst acc))"
  proof (cases "b mod 10 = 0")
    case True
    obtain st loss where tb: "train_batch num (trainer_epoch (fst acc)) b (storage (fst acc)) = (st, loss)"
      by (cases "train_batch num (trainer_epoch (fst acc)) b (storage (fst acc))")
    have em: "emitted (fst ?acc) = emitted (fst acc) @
                [[(''epoch'', PInt (int (trainer_epoch (fst acc)))),
                  (''batch'', PInt (int b)),
                  (''batch_progress'', PFloat (Finite (real b / real (n_batches num) * 100))),
                  (''loss'', PFloat loss)]]"
      using True by (simp add: batch_step_def Let_def tb)
    show ?thesis
      unfolding em
      by (rule emitted_snoc_epoch [OF Cons.prems]) (simp_all add: dict_get_def)
  next
    case False
    then have "emitted (fst ?acc) = emitted (fst acc)"
      by (simp add: batch_step_def Let_def split: prod.splits)
    then show ?thesis using Cons.prems by simp
  qed
  then show ?case using Cons.IH [of ?acc] te by simp
qed

lemma run_epoch_emitted:
  assumes "run_epoch num n save_dir e t = Inr t'"
    and "\<exists>ks. map (\<lambda>p. dict_get p ''epoch'' (PInt 0)) (emitted t) = map (\<lambda>k. PInt (int k)) ks
              \<and> sorted ks \<and> (\<forall>k\<in>set ks. k \<le> e)"
  shows "\<exists>ks. map (\<lambda>p. dict_get p ''epoch'' (PInt 0)) (emitted t') = map (\<lambda>k. PInt (int k)) ks
              \<and> sorted ks \<and> (\<forall>k\<in>set ks. k \<le> e)"
proof -
  let ?t = "t\<lparr>trainer_epoch := e\<rparr>"
  obtain t1 loss acc where te: "train_epoch num ?t = Inr (t1, loss, acc)"
    using assms(1) by (auto simp: run_epoch_def split: sum.splits)
  obtain v va p r f where ve: "validate_epoch num t1 = Inr (v, va, p, r, f)"
    using assms(1) te by (auto simp: run_epoch_def split: sum.splits)
  have t1: "t1 = fst (fold (batch_step num) [0..<n_batches num] (?t, Finite 0))"
    using te by (simp add: train_epoch_def Let_def split: prod.splits if_splits)
  have q1: "\<exists>ks. map (\<lambda>p. dict_get p ''epoch'' (PInt 0)) (emitted t1) = map (\<lambda>k. PInt (int k)) ks
              \<and> sorted ks \<and> (\<forall>k\<in>set ks. k \<le> e)"
    unfolding t1
    using fold_batch_step_emitted [of "(?t, Finite 0)" num "[0..<n_batches num]"] assms(2) by simp
  have "\<exists>pl. emitted t' = emitted t1 @ [pl] \<and> dict_get pl ''epoch'' (PInt 0) = PInt (int e)"
    using assms(1) by (auto simp add: run_epoch_def te ve Let_def save_checkpoint_def dict_get_def)
  then obtain pl where pl: "emitted t' = emitted t1 @ [pl]" "dict_get pl ''epoch'' (PInt 0) = PInt (int e)"
    by blast
  show ?thesis unfolding pl(1) by (rule emitted_snoc_epoch [OF q1 pl(2)]) simp
qed

lemma emitted_epochs_mono:
  "\<exists>ks. map (\<lambda>p. dict_get p ''epoch'' (PInt 0)) ps = map (\<lambda>k. PInt (int k)) ks
              \<and> sorted ks \<and> (\<forall>k\<in>set ks. k \<le> e) \<Longrightarrow> e \<le> e' \<Longrightarrow>
   \<exists>ks. map (\<lambda>p. dict_get p ''epoch'' (PInt 0)) ps = map (\<lambda>k. PInt (int k)) ks
              \<and> sorted ks \<and> (\<forall>k\<in>set ks. k \<le> e')"
  by (meson le_trans)

lemma epoch_loop_emitted:
  assumes "epoch_loop num n save_dir [a..<N] t = Inr t1"
    and "\<exists>ks. map (\<lambda>p. dict_get p ''epoch'' (PInt 0)) (emitted t) = map (\<lambda>k. PInt (int k)) ks
              \<and> sorted ks \<and> (\<forall>k\<in>set ks. k \<le> a)"
  shows "\<exists>ks. map (\<lambda>p. dict_get p ''epoch'' (PInt 0)) (emitted t1) = map (\<lambda>k. PInt (int k)) ks \<and> sorted ks"
  using assms
proof (induction "N - a" arbitrary: a t)
  case 0
  then have e: "[a..<N] = []" by simp
  have "t1 = t" using "0.prems"(1) unfolding e by simp
  then show ?case using "0.prems"(2) by blast
next
  case (Suc d)
  then have l: "[a..<N] = a # [Suc a..<N]" by (simp add: upt_conv_Cons)
  obtain t' where r: "run_epoch num n save_dir a t = Inr t'"
    using Suc.prems(1) unfolding l by (auto split: sum.splits)
  note q = run_epoch_emitted [OF r Suc.prems(2)]
  show ?case
  proof (cases "counter_reached (early_stopping_counter t') (patience (params t'))")
    case None
    then show ?thesis using Suc.prems(1) r unfolding l by simp
  next
    case (Some b)
    show ?thesis
    proof (cases b)
      case True
      then have "t1 = t'" using Suc.prems(1) r Some unfolding l by simp
      then show ?thesis using q by blast
    next
      case False
      then have go: "epoch_loop num n save_dir [Suc a..<N] t' = Inr t1"
        using Suc.prems(1) r Some unfolding l by simp
      have d: "d = N - Suc a" using Suc.hyps(2) by simp
      show ?thesis
        by (rule Suc.hyps(1) [OF d go]) (rule emitted_epochs_mono [OF q], simp)
    qed
  qed
qed

text \<open>
  The first half of claim C6, for every run of \<^verbatim>\<open>train\<close> that returns: the epoch
  numbers of the emitted payloads, batch-level and epoch-level, are in non-decreasing
  order.
\<close>

lemma train_emitted_epochs_sorted:
  assumes "train num save_dir (new_trainer tconfig st mp) = Inr (t', res)"
  shows "\<exists>ks. map (\<lambda>p. dict_get p ''epoch'' (PInt 0)) (emitted t') = map (\<lambda>k. PInt (int k)) ks \<and> sorted ks"
proof -
  let ?t0 = "new_trainer tconfig st mp"
  obtain n where n: "py_index (epochs (params ?t0)) = Some n"
    using assms by (auto simp: train_def split: option.splits)
  obtain t1 where l: "epoch_loop num n save_dir [0..<nat n] ?t0 = Inr t1"
    using assms by (auto simp: train_def n split: sum.splits)
  have e0: "emitted ?t0 = []" by (simp add: new_trainer_def)
  have q: "\<exists>ks. map (\<lambda>p. dict_get p ''epoch'' (PInt 0)) (emitted t1) = map (\<lambda>k. PInt (int k)) ks \<and> sorted ks"
    by (rule epoch_loop_emitted [OF l]) (simp add: e0)
  have "emitted t' = emitted t1"
    using assms
    by (auto simp: train_def n l Let_def load_state_dict_def split: sum.splits if_splits option.splits)
  then show ?thesis using q by simp
qed

text \<open>
  The rows after each progress write hold the epoch and the progress of the payload
  written, with 0 for a payload that has no \<^verbatim>\<open>progress\<close> key.
\<close>

lemma progress_writes_rows:
  "jobs s job_id = Some j \<Longrightarrow> list_all metrics_ok ps \<Longrightarrow>
     map (\<lambda>s'. map_option (\<lambda>j. (current_epoch j, progress_percentage j)) (jobs s' job_id))
         (progress_writes e job_id ps s)
     = map (\<lambda>p. Some (dict_get p ''epoch'' (PInt 0), dict_get p ''progress'' (PInt 0))) ps"
proof (induction ps arbitrary: s j)
  case Nil
  then show ?case by simp
next
  case (Cons p ps)
  let ?s' = "update_training_progress e job_id p s"
  have m: "metrics_ok p" "list_all metrics_ok ps" using Cons.prems(2) by simp_all
  have j': "jobs ?s' job_id = Some (progress_update_data (utcnow e) p j)"
    using update_training_progress_job [OF Cons.prems(1), of e p] m by simp
  have f: "current_epoch (progress_update_data (utcnow e) p j) = dict_get p ''epoch'' (PInt 0)"
    "progress_percentage (progress_update_data (utcnow e) p j) = dict_get p ''progress'' (PInt 0)"
    by (simp_all add: progress_update_data_def Let_def split: option.splits pyval.splits)
  show ?case
    using Cons.IH [OF j' m(2)] j' f by (simp add: Let_def)
qed


section \<open>The trainer at two runs\<close>

text \<open>
  Claim C4, at a run whose best epoch is not its last. Ten epochs are configured with a
  patience of 2; the validation losses are 1, 2, 2, so epoch 0 is the best one and the
  loop stops at epoch 2 = 0 + 2, as the claim says (and as \<open>train_stops_after_patience\<close>
  shows for every run). The weight is 1 after epoch 0 (the
  checkpoint tagged best holds it) and 3 after epoch 2. \<^verbatim>\<open>best_model_state\<close> is a copy
  of the state dictionary, not of its tensors, which the optimiser went on writing; the
  restore copies each tensor onto itself (\<open>train_keeps_last_parameters\<close>), and the live
  parameter after the loop is 3, with the final validation loss 2 and not the best loss 1.
\<close>

theorem restored_parameters_are_the_last:
  "case train drifting ''dir'' (drifting_trainer [(''epochs'', PInt 10), (''patience'', PInt 2)]) of
     Inl x \<Rightarrow> False
   | Inr (t, res) \<Rightarrow>
       trainer_epoch t = 2
       \<and> history_val_loss t = [Finite 1, Finite 2, Finite 2]
       \<and> best_val_loss t = Finite 1
       \<and> map_of (saved t) ''dir/checkpoint_epoch_0_best.pth'' = Some [(''w'', 1)]
       \<and> parameter_values t = [(''w'', 3)]
       \<and> final_val_loss res = PFloat (Finite 2)"
  by code_simp


end
